theory Spec2Isabelle
  imports Complex_Main "HOL-Library.AList"
begin

section \<open>Data model\<close>

text \<open>
  Calendar dates are Python \<open>datetime.date\<close> values. A date is represented by its proleptic
  Gregorian ordinal (\<open>date.toordinal()\<close>), so that comparison is comparison of ordinals,
  \<open>(end - start).days\<close> is the difference of ordinals and \<open>d - timedelta(days=n)\<close> is
  \<open>d - n\<close>.
\<close>

type_synonym date = int

text \<open>\<open>date.weekday()\<close>: Monday is 0 and Sunday is 6; CPython computes
  \<open>(self.toordinal() + 6) % 7\<close>.\<close>

definition weekday :: "date \<Rightarrow> int" where
  "weekday d = (d + 6) mod 7"

text \<open>A time of day (\<open>datetime.time\<close>) and a timestamp (\<open>datetime.datetime\<close>).\<close>

record py_time =
  t_hour :: nat
  t_minute :: nat
  t_second :: nat
  t_microsecond :: nat

record py_datetime =
  dt_date :: date
  dt_time :: py_time

text \<open>\<open>datetime.time()\<close> and the \<open>.dt.hour\<close> accessor.\<close>

definition time_of :: "py_datetime \<Rightarrow> py_time" where
  "time_of dt = dt_time dt"

definition hour_of :: "py_datetime \<Rightarrow> nat" where
  "hour_of dt = t_hour (dt_time dt)"

text \<open>The ORM rows of \<open>app.models\<close> that the attendance core reads and writes.\<close>

record user =
  user_id :: nat
  user_employee_id :: string
  user_name :: string
  user_department :: string
  user_is_active :: bool

record attendance =
  att_id :: nat
  att_employee_id :: string
  att_date :: date
  att_entry_time :: "py_datetime option"
  att_duration :: "real option"
  att_status :: string

record leave_request =
  lr_employee_id :: string
  lr_status :: string
  lr_start_date :: date
  lr_end_date :: date

record office_holiday =
  oh_event_date :: date

record attendance_daily =
  ad_employee_id :: string
  ad_date :: date
  ad_status :: string
  ad_check_in_time :: "py_time option"

text \<open>
  The SQLAlchemy session. The tables are lists in the order the store returns their rows.
  \<open>db.add\<close> puts a new object into \<open>pending\<close>; \<open>db.commit\<close> writes the pending objects
  to the table. Whether a query sees the pending objects depends on the session's
  \<open>autoflush\<close> setting, which is configured outside the analysed files, so it is a field of
  the session.
\<close>

record session =
  users :: "user list"
  attendances :: "attendance list"
  leave_requests :: "leave_request list"
  office_holidays :: "office_holiday list"
  attendance_dailies :: "attendance_daily list"
  pending :: "attendance_daily list"
  autoflush :: bool

text \<open>\<open>Query.first()\<close>: the first row of the result, or \<open>None\<close>.\<close>

definition first :: "'a list \<Rightarrow> 'a option" where
  "first xs = (case xs of [] \<Rightarrow> None | x # _ \<Rightarrow> Some x)"

text \<open>The rows of \<open>AttendanceDaily\<close> a query sees.\<close>

definition visible_dailies :: "session \<Rightarrow> attendance_daily list" where
  "visible_dailies db =
     (if autoflush db then attendance_dailies db @ pending db else attendance_dailies db)"

definition db_add :: "attendance_daily \<Rightarrow> session \<Rightarrow> session" where
  "db_add row db = db\<lparr>pending := pending db @ [row]\<rparr>"

definition db_commit :: "session \<Rightarrow> session" where
  "db_commit db = db\<lparr>attendance_dailies := attendance_dailies db @ pending db, pending := []\<rparr>"

section \<open>Attendance compiler (app/attendance_compiler.py)\<close>

text \<open>The queries of the loop body.\<close>

definition query_exists :: "session \<Rightarrow> string \<Rightarrow> date \<Rightarrow> attendance_daily option" where
  "query_exists db emp target_date =
     first (filter (\<lambda>r. ad_employee_id r = emp \<and> ad_date r = target_date) (visible_dailies db))"

definition query_leave :: "session \<Rightarrow> string \<Rightarrow> date \<Rightarrow> leave_request option" where
  "query_leave db emp target_date =
     first (filter (\<lambda>l. lr_employee_id l = emp \<and> lr_status l = ''Approved'' \<and>
                         lr_start_date l \<le> target_date \<and> lr_end_date l \<ge> target_date)
                   (leave_requests db))"

definition query_holiday :: "session \<Rightarrow> date \<Rightarrow> office_holiday option" where
  "query_holiday db target_date =
     first (filter (\<lambda>h. oh_event_date h = target_date) (office_holidays db))"

definition query_attendance :: "session \<Rightarrow> string \<Rightarrow> date \<Rightarrow> attendance option" where
  "query_attendance db emp target_date =
     first (filter (\<lambda>a. att_employee_id a = emp \<and> att_date a = target_date) (attendances db))"

text \<open>Lines 28 to 64: the status and the check-in time of one employee on the target date.\<close>

definition resolve_status :: "session \<Rightarrow> string \<Rightarrow> date \<Rightarrow> string \<times> py_time option" where
  "resolve_status db emp target_date =
     (if query_leave db emp target_date \<noteq> None then (''LEAVE'', None)
      else if query_holiday db target_date \<noteq> None then (''HOLIDAY'', None)
      else if weekday target_date \<ge> 5 then (''WEEKEND'', None)
      else (case query_attendance db emp target_date of
              Some a \<Rightarrow> (''PRESENT'',
                         (case att_entry_time a of Some t \<Rightarrow> Some (time_of t) | None \<Rightarrow> None))
            | None \<Rightarrow> (''ABSENT'', None)))"

text \<open>The \<open>AttendanceDaily(...)\<close> object of lines 67 to 72.\<close>

definition new_daily :: "session \<Rightarrow> string \<Rightarrow> date \<Rightarrow> attendance_daily" where
  "new_daily db emp target_date =
     \<lparr>ad_employee_id = emp,
      ad_date = target_date,
      ad_status = fst (resolve_status db emp target_date),
      ad_check_in_time = snd (resolve_status db emp target_date)\<rparr>"

text \<open>The \<open>for user in users\<close> loop, the session passed along.\<close>

fun compile_loop :: "date \<Rightarrow> user list \<Rightarrow> session \<Rightarrow> session" where
  "compile_loop target_date [] db = db"
| "compile_loop target_date (u # us) db =
     (if query_exists db (user_employee_id u) target_date \<noteq> None
      then compile_loop target_date us db
      else compile_loop target_date us
             (db_add (new_daily db (user_employee_id u) target_date) db))"

text \<open>
  \<open>compile_daily_attendance(db, target_date)\<close>. The clock (\<open>date.today()\<close>) is the argument
  \<open>today\<close>. A \<open>date\<close> is always truthy, so only \<open>None\<close> takes the default.
\<close>

definition active_users :: "session \<Rightarrow> user list" where
  "active_users db = filter (\<lambda>u. user_is_active u = True) (users db)"

text \<open>Lines 12 and 13: the target date, today when none is given.\<close>

definition target_of :: "date \<Rightarrow> date option \<Rightarrow> date" where
  "target_of today target_date = (case target_date of None \<Rightarrow> today | Some d \<Rightarrow> d)"

definition compile_daily_attendance :: "date \<Rightarrow> session \<Rightarrow> date option \<Rightarrow> session" where
  "compile_daily_attendance today db target_date =
     (let target_date = target_of today target_date
      in db_commit (compile_loop target_date (active_users db) db))"

section \<open>Attendance intelligence (app/analytics/attendance_intelligence.py)\<close>

subsection \<open>Python and pandas values\<close>

text \<open>
  The floats of the department leave report are binary64 numbers, with the rounding of every
  operation written out (see the floating point subsection below). The statistics that
  pandas computes over the columns of the attendance table (mean, minimum, maximum,
  standard deviation, z-score) are modelled by real numbers: that arithmetic is exact, and
  the model says nothing about its binary rounding. \<open>NaN\<close>, which pandas returns for the
  mean of an empty column or the standard deviation of fewer than two values, is \<open>None\<close>.
\<close>

datatype py_error = KeyError string | ZeroDivisionError | OverflowError

text \<open>Truthiness of an optional string (\<open>if employee_id\<close>) and of an optional session.\<close>

definition truthy_str :: "string option \<Rightarrow> bool" where
  "truthy_str s = (case s of None \<Rightarrow> False | Some v \<Rightarrow> v \<noteq> [])"

definition truthy_db :: "session option \<Rightarrow> bool" where
  "truthy_db d = (case d of None \<Rightarrow> False | Some _ \<Rightarrow> True)"

text \<open>
  The attendance table, a pandas \<open>DataFrame\<close>, column by column. A column that the frame
  does not have is \<open>None\<close>. The columns hold the types that \<open>get_attendance_dataframe\<close>
  puts into them; \<open>z\<close> is the column that \<open>detect_attendance_anomalies\<close> assigns.
  \<open>index_len\<close> is the number of rows, \<open>len(df.index)\<close>.
\<close>

record dataframe =
  index_len :: nat
  col_employee_id :: "string list option"
  col_date :: "date list option"
  col_entry_time :: "py_datetime list option"
  col_duration :: "real list option"
  col_status :: "string list option"
  col_z :: "real list option"

text \<open>In a pandas frame every column has one entry per row.\<close>

definition col_ok :: "nat \<Rightarrow> 'a list option \<Rightarrow> bool" where
  "col_ok n c = (case c of None \<Rightarrow> True | Some xs \<Rightarrow> length xs = n)"

definition wf_df :: "dataframe \<Rightarrow> bool" where
  "wf_df df = (col_ok (index_len df) (col_employee_id df) \<and> col_ok (index_len df) (col_date df) \<and>
               col_ok (index_len df) (col_entry_time df) \<and> col_ok (index_len df) (col_duration df) \<and>
               col_ok (index_len df) (col_status df) \<and> col_ok (index_len df) (col_z df))"

definition df_columns :: "dataframe \<Rightarrow> string list" where
  "df_columns df =
     (if col_employee_id df = None then [] else [''employee_id'']) @
     (if col_date df = None then [] else [''date'']) @
     (if col_entry_time df = None then [] else [''entry_time'']) @
     (if col_duration df = None then [] else [''duration'']) @
     (if col_status df = None then [] else [''status'']) @
     (if col_z df = None then [] else [''z''])"

text \<open>\<open>df.empty\<close>: one of the two axes has length 0. \<open>len(df)\<close>: the number of rows.\<close>

definition df_empty :: "dataframe \<Rightarrow> bool" where
  "df_empty df = (index_len df = 0 \<or> df_columns df = [])"

definition df_len :: "dataframe \<Rightarrow> int" where
  "df_len df = int (index_len df)"

text \<open>\<open>Series.mean()\<close>, \<open>Series.min()\<close>, \<open>Series.max()\<close>, and \<open>Series.std()\<close> with the
  pandas default \<open>ddof=1\<close>.\<close>

definition series_mean :: "real list \<Rightarrow> real option" where
  "series_mean xs = (if xs = [] then None else Some (sum_list xs / real (length xs)))"

definition series_min :: "real list \<Rightarrow> real option" where
  "series_min xs = (case xs of [] \<Rightarrow> None | x # rest \<Rightarrow> Some (fold min rest x))"

definition series_max :: "real list \<Rightarrow> real option" where
  "series_max xs = (case xs of [] \<Rightarrow> None | x # rest \<Rightarrow> Some (fold max rest x))"

definition sum_sq_dev :: "real list \<Rightarrow> real" where
  "sum_sq_dev xs = (let m = sum_list xs / real (length xs) in sum_list (map (\<lambda>x. (x - m)\<^sup>2) xs))"

definition series_std :: "real list \<Rightarrow> real option" where
  "series_std xs =
     (if length xs \<le> 1 then None else Some (sqrt (sum_sq_dev xs / real (length xs - 1))))"

text \<open>\<open>round(x, 2)\<close> and the format \<open>:.2f\<close>: the nearest multiple of 1/100, a tie going to
  the even one.\<close>

definition round_half_even :: "real \<Rightarrow> int" where
  "round_half_even x =
     (let f = \<lfloor>x\<rfloor>; d = x - of_int f
      in if d < 1/2 then f else if d > 1/2 then f + 1 else if even f then f else f + 1)"

definition round2 :: "real \<Rightarrow> real" where
  "round2 x = of_int (round_half_even (x * 100)) / 100"

definition round2_opt :: "real option \<Rightarrow> real option" where
  "round2_opt x = map_option round2 x"

definition digit_char :: "nat \<Rightarrow> char" where
  "digit_char n = ''0123456789'' ! (n mod 10)"

fun nat_digits :: "nat \<Rightarrow> string" where
  "nat_digits n = (if n < 10 then [digit_char n] else nat_digits (n div 10) @ [digit_char n])"

definition fmt2f :: "real \<Rightarrow> string" where
  "fmt2f x =
     (let q = nat (round_half_even (\<bar>x\<bar> * 100))
      in (if x < 0 then ''-'' else []) @ nat_digits (q div 100) @ ''.'' @
         [digit_char (q div 10), digit_char q])"

subsection \<open>Binary floating point\<close>

text \<open>
  A Python float is an IEEE 754 binary64 number: 53 significant bits, exponents from -1022
  to 1023, subnormal numbers below. A finite float is the real number it denotes (the two
  zeros, which Python compares equal, are one value). \<open>floor_log2 x\<close> is the exponent
  \<open>e\<close> with \<open>2 ^ e \<le> x < 2 ^ (e + 1)\<close> of a positive \<open>x\<close>. \<open>fl_round x\<close> is the multiple of
  the spacing of the floats at \<open>x\<close> that is nearest to \<open>x\<close>, a tie going to the even
  multiple: round to nearest, ties to even. A result of magnitude \<open>2 ^ 1024\<close> is an overflow.
\<close>

definition pow2 :: "int \<Rightarrow> real" where
  "pow2 e = (if 0 \<le> e then 2 ^ nat e else 1 / 2 ^ nat (- e))"

function floor_log2 :: "real \<Rightarrow> int" where
  "floor_log2 x =
     (if 2 \<le> x then floor_log2 (x / 2) + 1
      else if 0 < x \<and> x < 1 then floor_log2 (x * 2) - 1
      else 0)"
  by pat_completeness auto
termination
proof (relation "measure (\<lambda>x. if 2 \<le> x then nat \<lfloor>x\<rfloor>
                                else if 0 < x \<and> x < 1 then nat \<lceil>1 / x\<rceil> else 0)")
  show "wf (measure (\<lambda>x. if 2 \<le> x then nat \<lfloor>x\<rfloor>
                                else if 0 < x \<and> x < 1 then nat \<lceil>1 / x\<rceil> else 0))" by simp
next
  fix x :: real assume x: "2 \<le> x"
  have "\<lfloor>x / 2\<rfloor> < \<lfloor>x\<rfloor>" using x by linarith
  moreover have "0 < \<lfloor>x\<rfloor>" using x by linarith
  ultimately show "(x / 2, x) \<in> measure (\<lambda>x. if 2 \<le> x then nat \<lfloor>x\<rfloor>
                                else if 0 < x \<and> x < 1 then nat \<lceil>1 / x\<rceil> else 0)"
    using x by auto
next
  fix x :: real assume "\<not> 2 \<le> x" and x: "0 < x \<and> x < 1"
  have c: "2 \<le> \<lceil>1 / x\<rceil>"
  proof -
    have "1 < 1 / x" using x by simp
    then show ?thesis by linarith
  qed
  have d: "\<lceil>1 / (x * 2)\<rceil> < \<lceil>1 / x\<rceil>" if "x * 2 < 1"
  proof -
    have "2 < 1 / x" using x that by (simp add: field_simps)
    moreover have "1 / (x * 2) = (1 / x) / 2" by simp
    ultimately show ?thesis by linarith
  qed
  show "(x * 2, x) \<in> measure (\<lambda>x. if 2 \<le> x then nat \<lfloor>x\<rfloor>
                                else if 0 < x \<and> x < 1 then nat \<lceil>1 / x\<rceil> else 0)"
    using x c d by auto
qed

declare floor_log2.simps [simp del]

definition fl_round :: "real \<Rightarrow> real" where
  "fl_round x =
     (if x = 0 then 0
      else let e = max (floor_log2 \<bar>x\<bar>) (- 1022);
               q = pow2 (e - 52)
           in of_int (round_half_even (x / q)) * q)"

text \<open>
  \<open>a / b\<close> on two Python ints: the quotient correctly rounded, \<open>ZeroDivisionError\<close> for a
  zero divisor and \<open>OverflowError\<close> when the rounded quotient is too large for a float.
\<close>

definition int_truediv :: "int \<Rightarrow> int \<Rightarrow> py_error + real" where
  "int_truediv a b =
     (if b = 0 then Inl ZeroDivisionError
      else let r = fl_round (real_of_int a / real_of_int b)
           in if pow2 1024 \<le> \<bar>r\<bar> then Inl OverflowError else Inr r)"

text \<open>
  \<open>x * y\<close> on two finite floats, which overflows to an infinity and raises nothing, and
  \<open>x > p\<close> for a finite float \<open>x\<close> and such a product \<open>p\<close>.
\<close>

datatype py_float = Finite real | PosInf | NegInf

definition float_mul :: "real \<Rightarrow> real \<Rightarrow> py_float" where
  "float_mul x y =
     (let r = fl_round (x * y)
      in if pow2 1024 \<le> r then PosInf else if r \<le> - pow2 1024 then NegInf else Finite r)"

definition float_gt :: "real \<Rightarrow> py_float \<Rightarrow> bool" where
  "float_gt x p = (case p of Finite y \<Rightarrow> y < x | PosInf \<Rightarrow> False | NegInf \<Rightarrow> True)"

text \<open>
  \<open>round(x, 2)\<close> on a finite float: CPython rounds the exact value of \<open>x\<close> to two
  decimals, a tie going to the even digit, and returns the float nearest to that decimal.
\<close>

definition py_round2 :: "real \<Rightarrow> real" where
  "py_round2 x = fl_round (real_of_int (round_half_even (x * 100)) / 100)"

subsection \<open>Data ingestion\<close>

text \<open>The dictionaries appended to \<open>data\<close>, and \<open>pd.DataFrame(data)\<close>: an empty list gives
  a frame with no column and no row.\<close>

record fact_row =
  fr_employee_id :: string
  fr_date :: date
  fr_entry_time :: py_datetime
  fr_duration :: real
  fr_status :: string

definition DataFrame :: "fact_row list \<Rightarrow> dataframe" where
  "DataFrame data =
     (if data = [] then
        \<lparr>index_len = 0, col_employee_id = None, col_date = None, col_entry_time = None,
         col_duration = None, col_status = None, col_z = None\<rparr>
      else
        \<lparr>index_len = length data,
         col_employee_id = Some (map fr_employee_id data),
         col_date = Some (map fr_date data),
         col_entry_time = Some (map fr_entry_time data),
         col_duration = Some (map fr_duration data),
         col_status = Some (map fr_status data),
         col_z = None\<rparr>)"

text \<open>\<open>float(r.duration or 0)\<close>.\<close>

definition duration_or_0 :: "real option \<Rightarrow> real" where
  "duration_or_0 d = (case d of None \<Rightarrow> 0 | Some v \<Rightarrow> (if v = 0 then 0 else v))"

text \<open>The \<open>for r in rows\<close> loop, \<open>data\<close> being the accumulator.\<close>

fun ingest_loop :: "attendance list \<Rightarrow> fact_row list \<Rightarrow> fact_row list" where
  "ingest_loop [] data = data"
| "ingest_loop (r # rows) data =
     (case att_entry_time r of
        Some t \<Rightarrow> ingest_loop rows
                    (data @ [\<lparr>fr_employee_id = att_employee_id r, fr_date = att_date r,
                              fr_entry_time = t, fr_duration = duration_or_0 (att_duration r),
                              fr_status = att_status r\<rparr>])
      | None \<Rightarrow> ingest_loop rows data)"

definition get_attendance_rows :: "date \<Rightarrow> session \<Rightarrow> string option \<Rightarrow> fact_row list" where
  "get_attendance_rows today db employee_id =
     (let query = attendances db;
          query = (if truthy_str employee_id
                   then filter (\<lambda>a. Some (att_employee_id a) = employee_id) query else query);
          query = filter (\<lambda>a. att_date a \<ge> today - 180) query
      in ingest_loop query [])"

definition get_attendance_dataframe :: "date \<Rightarrow> session \<Rightarrow> string option \<Rightarrow> dataframe" where
  "get_attendance_dataframe today db employee_id =
     DataFrame (get_attendance_rows today db employee_id)"

subsection \<open>Metrics engine\<close>

text \<open>The \<open>metrics\<close> dictionary; \<open>chart_breakdown\<close> is the two lists \<open>chart_labels\<close> and
  \<open>chart_values\<close>.\<close>

record metrics =
  average_login_hour :: "real option"
  average_work_hours :: "real option"
  late_arrival_days :: int
  absent_days :: int
  leave_days :: int
  present_days :: int
  min_work_hours :: "real option"
  max_work_hours :: "real option"
  total_days_analyzed :: int
  absence_trend :: string
  attendance_score :: int
  risk_level :: string
  chart_labels :: "string list"
  chart_values :: "int list"

definition default_metrics :: metrics where
  "default_metrics =
     \<lparr>average_login_hour = Some 0, average_work_hours = Some 0, late_arrival_days = 0,
      absent_days = 0, leave_days = 0, present_days = 0, min_work_hours = Some 0,
      max_work_hours = Some 0, total_days_analyzed = 0, absence_trend = ''stable'',
      attendance_score = 0, risk_level = ''high'', chart_labels = [], chart_values = []\<rparr>"

text \<open>Lines 88 to 97: the leave days of the employee, when an employee and a session are
  given.\<close>

definition approved_leaves_of :: "session \<Rightarrow> string \<Rightarrow> leave_request list" where
  "approved_leaves_of db emp =
     filter (\<lambda>l. lr_employee_id l = emp \<and> lr_status l = ''Approved'') (leave_requests db)"

definition leave_calculation :: "session option \<Rightarrow> string option \<Rightarrow> int" where
  "leave_calculation db employee_id =
     (if truthy_str employee_id \<and> truthy_db db then
        (case (employee_id, db) of
           (Some emp, Some d) \<Rightarrow>
             fold (\<lambda>l leave_days'. leave_days' + ((lr_end_date l - lr_start_date l) + 1))
                  (approved_leaves_of d emp) 0
         | _ \<Rightarrow> 0)
      else 0)"

text \<open>Lines 111 to 128.\<close>

definition score_of :: "int \<Rightarrow> int \<Rightarrow> int \<Rightarrow> int \<Rightarrow> int" where
  "score_of present late absent leave_days' =
     (let score = 100;
          score = score - late * 2;
          score = score - absent * 6;
          score = score - leave_days' * 1;
          score = (if present = 0 then 0 else score)
      in max 0 score)"

definition risk_level_of :: "int \<Rightarrow> string" where
  "risk_level_of score = (if score < 60 then ''high'' else if score < 80 then ''medium'' else ''low'')"

text \<open>\<open>compute_behavior_metrics(df, db, employee_id)\<close>. Reading a column that the frame does
  not have raises \<open>KeyError\<close>. The function works on a copy of the frame, so the caller's
  frame is not changed.\<close>

definition compute_behavior_metrics ::
  "dataframe \<Rightarrow> session option \<Rightarrow> string option \<Rightarrow> py_error + metrics" where
  "compute_behavior_metrics df db employee_id =
     (if df_empty df then Inr default_metrics
      else case col_entry_time df of
        None \<Rightarrow> Inr default_metrics
      | Some entry_time \<Rightarrow>
          let login_hour = map hour_of entry_time in
          (case col_status df of
             None \<Rightarrow> Inl (KeyError ''status'')
           | Some status \<Rightarrow>
               let present = int (length (filter (\<lambda>s. s = ''PRESENT'') status));
                   absent = int (length (filter (\<lambda>s. s = ''ABSENT'') status));
                   late = int (length (filter (\<lambda>h. h > 10) login_hour));
                   leave_days' = leave_calculation db employee_id
               in (case col_duration df of
                     None \<Rightarrow> Inl (KeyError ''duration'')
                   | Some duration \<Rightarrow>
                       let score = score_of present late absent leave_days'
                       in Inr \<lparr>average_login_hour = round2_opt (series_mean (map real login_hour)),
                               average_work_hours = round2_opt (series_mean duration),
                               late_arrival_days = late,
                               absent_days = absent,
                               leave_days = leave_days',
                               present_days = present,
                               min_work_hours = round2_opt (series_min duration),
                               max_work_hours = round2_opt (series_max duration),
                               total_days_analyzed = df_len df,
                               absence_trend = ''stable'',
                               attendance_score = score,
                               risk_level = risk_level_of score,
                               chart_labels = [''Present'', ''Absent'', ''Leave'', ''Late''],
                               chart_values = [present, absent, leave_days', late]\<rparr>)))"

subsection \<open>Anomaly detection\<close>

record anomaly =
  an_employee_id :: string
  an_date :: string
  an_reason :: string

text \<open>
  \<open>str\<close> of a \<open>datetime.date\<close>, its ISO format \<open>YYYY-MM-DD\<close>. \<open>ord2ymd\<close> is CPython's
  \<open>_ord2ymd\<close>, which turns an ordinal into year, month and day.
\<close>

definition days_in_month :: "int \<Rightarrow> int" where
  "days_in_month m = [-1, 31, 28, 31, 30, 31, 30, 31, 31, 30, 31, 30, 31] ! nat m"

definition days_before_month :: "int \<Rightarrow> int" where
  "days_before_month m = [-1, 0, 31, 59, 90, 120, 151, 181, 212, 243, 273, 304, 334] ! nat m"

definition ord2ymd :: "int \<Rightarrow> int \<times> int \<times> int" where
  "ord2ymd ordinal =
     (let n = ordinal - 1;
          n400 = n div 146097; n = n mod 146097;
          year = n400 * 400 + 1;
          n100 = n div 36524; n = n mod 36524;
          n4 = n div 1461; n = n mod 1461;
          n1 = n div 365; n = n mod 365;
          year = year + n100 * 100 + n4 * 4 + n1
      in if n1 = 4 \<or> n100 = 4 then (year - 1, 12, 31)
         else
           let leapyear = (n1 = 3 \<and> (n4 \<noteq> 24 \<or> n100 = 3));
               month = (n + 50) div 32;
               preceding = days_before_month month + (if month > 2 \<and> leapyear then 1 else 0)
           in if preceding > n then
                let month = month - 1;
                    preceding = preceding -
                      (days_in_month month + (if month = 2 \<and> leapyear then 1 else 0))
                in (year, month, n - preceding + 1)
              else (year, month, n - preceding + 1))"

definition zero_pad :: "nat \<Rightarrow> int \<Rightarrow> string" where
  "zero_pad width v =
     replicate (width - length (nat_digits (nat v))) (CHR ''0'') @ nat_digits (nat v)"

definition str_date :: "date \<Rightarrow> string" where
  "str_date d =
     (case ord2ymd d of
        (y, m, dd) \<Rightarrow> zero_pad 4 y @ ''-'' @ zero_pad 2 m @ ''-'' @ zero_pad 2 dd)"

text \<open>The dictionary appended for one flagged row.\<close>

definition anomaly_of :: "string \<times> date \<times> real \<times> real \<Rightarrow> anomaly" where
  "anomaly_of r =
     (case r of (e, d, x, z) \<Rightarrow>
        \<lparr>an_employee_id = e, an_date = str_date d,
         an_reason = ''Unusual work duration ('' @ fmt2f x @ ''h)''\<rparr>)"

text \<open>The loop over \<open>df[abs(df["z"]) > 2].iterrows()\<close>. The body reads \<open>employee_id\<close>, then
  \<open>date\<close>, then \<open>duration\<close> of the row; it runs only when a row is selected.\<close>

definition flagged :: "real \<Rightarrow> bool" where
  "flagged z = (\<bar>z\<bar> > 2)"

definition anomaly_rows ::
  "dataframe \<Rightarrow> real list \<Rightarrow> real list \<Rightarrow> py_error + anomaly list" where
  "anomaly_rows df duration z =
     (if filter flagged z = [] then Inr []
      else case col_employee_id df of
        None \<Rightarrow> Inl (KeyError ''employee_id'')
      | Some es \<Rightarrow>
          (case col_date df of
             None \<Rightarrow> Inl (KeyError ''date'')
           | Some ds \<Rightarrow>
               Inr (map anomaly_of
                      (filter (\<lambda>(e, d, x, v). flagged v) (zip es (zip ds (zip duration z)))))))"

definition mean_of :: "real list \<Rightarrow> real" where
  "mean_of xs = sum_list xs / real (length xs)"

text \<open>
  \<open>detect_attendance_anomalies(df)\<close>: the result, and the caller's frame after the call
  (the function assigns the column \<open>z\<close> to the frame it was given). Where the standard
  deviation is a number the column has at least two entries, so its mean is a number too.
\<close>

definition detect_attendance_anomalies ::
  "dataframe \<Rightarrow> (py_error + anomaly list) \<times> dataframe" where
  "detect_attendance_anomalies df =
     (if df_empty df then (Inr [], df)
      else case col_duration df of
        None \<Rightarrow> (Inr [], df)
      | Some duration \<Rightarrow>
          if df_len df < 10 then (Inr [], df)
          else (case series_std duration of
                  None \<Rightarrow> (Inr [], df)
                | Some s \<Rightarrow>
                    if s > 0 then
                      (let z = map (\<lambda>x. (x - mean_of duration) / s) duration;
                           df' = df\<lparr>col_z := Some z\<rparr>
                       in (anomaly_rows df' duration z, df'))
                    else (Inr [], df)))"

subsection \<open>Department leave abuse\<close>

record abuse =
  ab_department :: string
  ab_avg_leave :: real
  ab_org_avg :: real

text \<open>\<open>d.get(k, default)\<close> on a dictionary kept as an association list in insertion order;
  \<open>d[k] = v\<close> is \<open>AList.update\<close>.\<close>

definition dict_get :: "('k \<times> 'v) list \<Rightarrow> 'k \<Rightarrow> 'v \<Rightarrow> 'v" where
  "dict_get d k dflt = (case map_of d k of None \<Rightarrow> dflt | Some v \<Rightarrow> v)"

text \<open>The join of the approved leave requests with the active users, and the count of the
  active users by department.\<close>

definition query_leaves :: "session \<Rightarrow> (string \<times> date \<times> date) list" where
  "query_leaves db =
     concat (map (\<lambda>l. map (\<lambda>u. (user_department u, lr_start_date l, lr_end_date l))
                         (filter (\<lambda>u. user_employee_id u = lr_employee_id l \<and>
                                       user_is_active u = True) (users db)))
                 (filter (\<lambda>l. lr_status l = ''Approved'') (leave_requests db)))"

definition query_emp_counts :: "session \<Rightarrow> (string \<times> int) list" where
  "query_emp_counts db =
     map (\<lambda>d. (d, int (length (filter (\<lambda>u. user_department u = d) (active_users db)))))
         (remdups (map user_department (active_users db)))"

fun dept_leave_loop ::
  "(string \<times> date \<times> date) list \<Rightarrow> (string \<times> int) list \<Rightarrow> (string \<times> int) list" where
  "dept_leave_loop [] dept_leave = dept_leave"
| "dept_leave_loop ((dept, start, end') # leaves) dept_leave =
     dept_leave_loop leaves
       (AList.update dept (dict_get dept_leave dept 0 + ((end' - start) + 1)) dept_leave)"

text \<open>The loop over \<open>dept_leave.items()\<close>; \<open>org_avg\<close> is a float (or the int 0, the same
  value).\<close>

fun abuse_loop ::
  "(string \<times> int) list \<Rightarrow> real \<Rightarrow> (string \<times> int) list \<Rightarrow> abuse list \<Rightarrow> py_error + abuse list" where
  "abuse_loop emp_counts org_avg [] abused = Inr abused"
| "abuse_loop emp_counts org_avg ((dept, days) # items) abused =
     (case int_truediv days (dict_get emp_counts dept 1) of
        Inl e \<Rightarrow> Inl e
      | Inr avg \<Rightarrow>
          abuse_loop emp_counts org_avg items
            (if float_gt avg (float_mul org_avg 1.5)
             then abused @ [\<lparr>ab_department = dept, ab_avg_leave = py_round2 avg,
                              ab_org_avg = py_round2 org_avg\<rparr>]
             else abused))"

definition detect_department_leave_abuse :: "session \<Rightarrow> py_error + abuse list" where
  "detect_department_leave_abuse db =
     (let leaves = query_leaves db in
      if leaves = [] then Inr []
      else let dept_leave = dept_leave_loop leaves [];
               emp_counts = query_emp_counts db;
               total_leave = sum_list (map snd dept_leave);
               total_emp = sum_list (map snd emp_counts)
           in case (if total_emp \<noteq> 0 then int_truediv total_leave total_emp else Inr 0) of
                Inl e \<Rightarrow> Inl e
              | Inr org_avg \<Rightarrow> abuse_loop emp_counts org_avg dept_leave [])"

subsection \<open>Absenteeism risk\<close>

record risk_result =
  rr_employee_id :: string
  rr_risk :: string
  rr_risk_score :: int

definition recent_absents :: "date \<Rightarrow> session \<Rightarrow> string \<Rightarrow> int" where
  "recent_absents today db employee_id =
     (let three_months_ago = today - 90
      in int (length (filter (\<lambda>a. att_employee_id a = employee_id \<and> att_status a = ''ABSENT'' \<and>
                                   att_date a \<ge> three_months_ago) (attendances db))))"

definition predict_absenteeism_risk :: "date \<Rightarrow> session \<Rightarrow> string \<Rightarrow> py_error + risk_result" where
  "predict_absenteeism_risk today db employee_id =
     (let df = get_attendance_dataframe today db (Some employee_id) in
      case compute_behavior_metrics df (Some db) (Some employee_id) of
        Inl e \<Rightarrow> Inl e
      | Inr metrics \<Rightarrow>
          let risk_score = recent_absents today db employee_id * 2;
              risk_score = (if attendance_score metrics < 70 then risk_score + 10 else risk_score);
              risk = (if risk_score \<ge> 20 then ''high''
                      else if risk_score \<ge> 10 then ''medium'' else ''low'')
          in Inr \<lparr>rr_employee_id = employee_id, rr_risk = risk, rr_risk_score = risk_score\<rparr>)"

section \<open>The specification's words\<close>

subsection \<open>Daily status resolver\<close>

text \<open>The four signals of the resolver as the specification names them, and the status
  they give by precedence: leave, then holiday, then weekend, then the raw fact.\<close>

definition on_approved_leave :: "session \<Rightarrow> string \<Rightarrow> date \<Rightarrow> bool" where
  "on_approved_leave db emp d =
     (\<exists>l \<in> set (leave_requests db). lr_employee_id l = emp \<and> lr_status l = ''Approved'' \<and>
         lr_start_date l \<le> d \<and> d \<le> lr_end_date l)"

definition is_holiday :: "session \<Rightarrow> date \<Rightarrow> bool" where
  "is_holiday db d = (d \<in> oh_event_date ` set (office_holidays db))"

definition is_weekend :: "date \<Rightarrow> bool" where
  "is_weekend d = (weekday d = 5 \<or> weekday d = 6)"

definition raw_fact :: "session \<Rightarrow> string \<Rightarrow> date \<Rightarrow> attendance option" where
  "raw_fact db emp d = find (\<lambda>a. att_employee_id a = emp \<and> att_date a = d) (attendances db)"

definition spec_status :: "session \<Rightarrow> string \<Rightarrow> date \<Rightarrow> string \<times> py_time option" where
  "spec_status db emp d =
     (if on_approved_leave db emp d then (''LEAVE'', None)
      else if is_holiday db d then (''HOLIDAY'', None)
      else if is_weekend d then (''WEEKEND'', None)
      else (case raw_fact db emp d of
              Some a \<Rightarrow> (''PRESENT'', map_option time_of (att_entry_time a))
            | None \<Rightarrow> (''ABSENT'', None)))"

text \<open>A row of the derived table for an employee and a date, and their number.\<close>

definition is_row_of :: "string \<Rightarrow> date \<Rightarrow> attendance_daily \<Rightarrow> bool" where
  "is_row_of emp d r = (ad_employee_id r = emp \<and> ad_date r = d)"

definition rows_of :: "string \<Rightarrow> date \<Rightarrow> attendance_daily list \<Rightarrow> nat" where
  "rows_of emp d rs = length (filter (is_row_of emp d) rs)"

subsection \<open>Attendance table and metrics\<close>

text \<open>The fields of the table that the metrics engine reads.\<close>

definition has_required_fields :: "dataframe \<Rightarrow> bool" where
  "has_required_fields df =
     (col_entry_time df \<noteq> None \<and> col_status df \<noteq> None \<and> col_duration df \<noteq> None)"

text \<open>The row of the table that a raw fact with an entry time gives, its duration 0 when
  the fact has none; the facts an optional employee identifier selects (all of them when it
  is absent or empty); and a window of \<open>n\<close> days that ends today.\<close>

definition fact_row_of :: "attendance \<Rightarrow> fact_row option" where
  "fact_row_of a =
     (case att_entry_time a of
        None \<Rightarrow> None
      | Some t \<Rightarrow> Some \<lparr>fr_employee_id = att_employee_id a, fr_date = att_date a,
                        fr_entry_time = t,
                        fr_duration = (case att_duration a of None \<Rightarrow> 0 | Some v \<Rightarrow> v),
                        fr_status = att_status a\<rparr>)"

definition for_employee :: "string option \<Rightarrow> attendance \<Rightarrow> bool" where
  "for_employee employee_id a =
     (case employee_id of None \<Rightarrow> True
      | Some e \<Rightarrow> (if e = [] then True else att_employee_id a = e))"

definition in_window :: "date \<Rightarrow> nat \<Rightarrow> date \<Rightarrow> bool" where
  "in_window today n d = (today - int n \<le> d \<and> d \<le> today)"

text \<open>The ABSENT facts of an employee in the trailing 90 days, both ends included.\<close>

definition spec_recent_absents :: "date \<Rightarrow> session \<Rightarrow> string \<Rightarrow> int" where
  "spec_recent_absents today db employee_id =
     int (length (filter (\<lambda>a. att_employee_id a = employee_id \<and> att_status a = ''ABSENT'' \<and>
                             in_window today 90 (att_date a)) (attendances db)))"

text \<open>The ABSENT facts of an employee dated on or after a bound.\<close>

definition absents_since :: "date \<Rightarrow> session \<Rightarrow> string \<Rightarrow> int" where
  "absents_since bound db employee_id =
     int (length (filter (\<lambda>a. att_employee_id a = employee_id \<and> att_status a = ''ABSENT'' \<and>
                             bound \<le> att_date a) (attendances db)))"

subsection \<open>Anomalies\<close>

text \<open>The variance and the standard deviation of a column with the divisor \<open>n - 1\<close> (the
  sample statistics, which \<open>Series.std()\<close> computes) and with the divisor \<open>n\<close> (the
  population statistics, which the specification names).\<close>

definition sample_var :: "real list \<Rightarrow> real" where
  "sample_var xs = sum_sq_dev xs / real (length xs - 1)"

definition sample_std :: "real list \<Rightarrow> real" where
  "sample_std xs = sqrt (sample_var xs)"





subsection \<open>Department leave\<close>

text \<open>
  The active headcount of a department; the leave days of a department and of the
  organization, \<open>(end - start).days + 1\<close> for every approved request and every active
  employee it belongs to; and the departments that have such a request.
\<close>

definition headcount :: "session \<Rightarrow> string \<Rightarrow> int" where
  "headcount db d = int (length (filter (\<lambda>u. user_department u = d) (active_users db)))"

definition dept_leave_days :: "session \<Rightarrow> string \<Rightarrow> int" where
  "dept_leave_days db d =
     (\<Sum>l\<leftarrow>filter (\<lambda>l. lr_status l = ''Approved'') (leave_requests db).
        \<Sum>u\<leftarrow>filter (\<lambda>u. user_is_active u \<and> user_employee_id u = lr_employee_id l \<and>
                          user_department u = d) (users db).
          (lr_end_date l - lr_start_date l) + 1)"

definition total_leave_days :: "session \<Rightarrow> int" where
  "total_leave_days db =
     (\<Sum>l\<leftarrow>filter (\<lambda>l. lr_status l = ''Approved'') (leave_requests db).
        \<Sum>u\<leftarrow>filter (\<lambda>u. user_is_active u \<and> user_employee_id u = lr_employee_id l) (users db).
          (lr_end_date l - lr_start_date l) + 1)"

definition leave_departments :: "session \<Rightarrow> string set" where
  "leave_departments db =
     {user_department u | u l. u \<in> set (users db) \<and> l \<in> set (leave_requests db) \<and>
        lr_status l = ''Approved'' \<and> user_is_active u \<and>
        user_employee_id u = lr_employee_id l}"

text \<open>
  The averages in the specification's words, as exact quotients: the average of a
  department, its divisor at least 1, and the average of the organization, 0 without active
  employees.
\<close>

definition dept_average_exact :: "session \<Rightarrow> string \<Rightarrow> real" where
  "dept_average_exact db d =
     real_of_int (dept_leave_days db d) / real_of_int (max 1 (headcount db d))"

definition org_average_exact :: "session \<Rightarrow> real" where
  "org_average_exact db =
     (if active_users db = [] then 0
      else real_of_int (total_leave_days db) / real (length (active_users db)))"

text \<open>
  The averages as floats, each the correctly rounded quotient; the test that a department's
  float average is greater than the float product of the organization's float average and
  1.5; and the record reported for a department, each average rounded to two decimals by
  \<open>round\<close>.
\<close>

definition dept_average :: "session \<Rightarrow> string \<Rightarrow> real" where
  "dept_average db d = fl_round (dept_average_exact db d)"

definition org_average :: "session \<Rightarrow> real" where
  "org_average db = fl_round (org_average_exact db)"

definition exceeds :: "session \<Rightarrow> string \<Rightarrow> bool" where
  "exceeds db d = float_gt (dept_average db d) (float_mul (org_average db) 1.5)"

definition abuse_record :: "session \<Rightarrow> string \<Rightarrow> abuse" where
  "abuse_record db d =
     \<lparr>ab_department = d, ab_avg_leave = py_round2 (dept_average db d),
      ab_org_avg = py_round2 (org_average db)\<rparr>"

text \<open>The leave days of a department in the rows of the join, and the absolute leave days
  of all rows.\<close>

definition days_for :: "string \<Rightarrow> (string \<times> date \<times> date) list \<Rightarrow> int" where
  "days_for d leaves = (\<Sum>(dept, start, end') \<leftarrow> leaves. if dept = d then (end' - start) + 1 else 0)"

definition abs_leave_days :: "session \<Rightarrow> int" where
  "abs_leave_days db = (\<Sum>(dept, start, end') \<leftarrow> query_leaves db. \<bar>(end' - start) + 1\<bar>)"

section \<open>Example stores\<close>

text \<open>A store with one active and one inactive employee. The active employee has an approved
  leave from Sunday 2023-12-31 to Tuesday 2024-01-02, and Monday 2024-01-01 (ordinal 738886)
  is an office holiday.\<close>

definition ex_user :: user where
  "ex_user = \<lparr>user_id = 1, user_employee_id = ''E001'', user_name = ''Asha'',
              user_department = ''Eng'', user_is_active = True\<rparr>"

definition ex_db :: session where
  "ex_db = \<lparr>users = [ex_user,
                      \<lparr>user_id = 2, user_employee_id = ''E002'', user_name = ''Ben'',
                       user_department = ''Ops'', user_is_active = False\<rparr>],
            attendances = [],
            leave_requests = [\<lparr>lr_employee_id = ''E001'', lr_status = ''Approved'',
                               lr_start_date = 738885, lr_end_date = 738887\<rparr>],
            office_holidays = [\<lparr>oh_event_date = 738886\<rparr>],
            attendance_dailies = [],
            pending = [],
            autoflush = False\<rparr>"

text \<open>Attendance tables: one with three rows and every field, and one that has an entry
  time but neither a status nor a duration.\<close>

definition ex_dt :: "date \<Rightarrow> nat \<Rightarrow> nat \<Rightarrow> py_datetime" where
  "ex_dt d h m = \<lparr>dt_date = d, dt_time = \<lparr>t_hour = h, t_minute = m, t_second = 0, t_microsecond = 0\<rparr>\<rparr>"

definition ex_df :: dataframe where
  "ex_df =
     \<lparr>index_len = 3,
      col_employee_id = Some [''E001'', ''E001'', ''E001''],
      col_date = Some [738880, 738881, 738882],
      col_entry_time = Some [ex_dt 738880 9 5, ex_dt 738881 11 30, ex_dt 738882 12 0],
      col_duration = Some [8, 0, 15/2],
      col_status = Some [''PRESENT'', ''ABSENT'', ''PRESENT''],
      col_z = None\<rparr>"

definition ex_df_no_status :: dataframe where
  "ex_df_no_status =
     \<lparr>index_len = 1, col_employee_id = None, col_date = None,
      col_entry_time = Some [\<lparr>dt_date = 738880,
                              dt_time = \<lparr>t_hour = 9, t_minute = 5, t_second = 0, t_microsecond = 0\<rparr>\<rparr>],
      col_duration = None, col_status = None, col_z = None\<rparr>"

text \<open>The store above with five raw facts, seen on Monday 2024-01-01: one of them has no
  entry time, one (the fourth) is dated the day after, and one (the fifth) is 181 days old.\<close>

definition ex_att_db :: session where
  "ex_att_db =
     ex_db\<lparr>attendances :=
       [\<lparr>att_id = 1, att_employee_id = ''E001'', att_date = 738880,
         att_entry_time = Some (ex_dt 738880 9 5), att_duration = Some 8, att_status = ''PRESENT''\<rparr>,
        \<lparr>att_id = 2, att_employee_id = ''E001'', att_date = 738881,
         att_entry_time = None, att_duration = None, att_status = ''ABSENT''\<rparr>,
        \<lparr>att_id = 3, att_employee_id = ''E002'', att_date = 738882,
         att_entry_time = Some (ex_dt 738882 11 30), att_duration = None, att_status = ''PRESENT''\<rparr>,
        \<lparr>att_id = 4, att_employee_id = ''E001'', att_date = 738887,
         att_entry_time = Some (ex_dt 738887 10 0), att_duration = Some 4, att_status = ''ABSENT''\<rparr>,
        \<lparr>att_id = 5, att_employee_id = ''E001'', att_date = 738705,
         att_entry_time = Some (ex_dt 738705 9 0), att_duration = Some 8, att_status = ''PRESENT''\<rparr>]\<rparr>"

text \<open>A store in which the employee has one PRESENT and two ABSENT facts in the last
  90 days, each with an entry time not after 10 o'clock, and an approved leave of 23 days.\<close>

definition ex_risk_db :: session where
  "ex_risk_db =
     \<lparr>users = [ex_user],
      attendances =
       [\<lparr>att_id = 1, att_employee_id = ''E001'', att_date = 738884,
         att_entry_time = Some (ex_dt 738884 9 0), att_duration = Some 8, att_status = ''PRESENT''\<rparr>,
        \<lparr>att_id = 2, att_employee_id = ''E001'', att_date = 738850,
         att_entry_time = Some (ex_dt 738850 9 30), att_duration = Some 0, att_status = ''ABSENT''\<rparr>,
        \<lparr>att_id = 3, att_employee_id = ''E001'', att_date = 738851,
         att_entry_time = Some (ex_dt 738851 10 0), att_duration = None, att_status = ''ABSENT''\<rparr>],
      leave_requests = [\<lparr>lr_employee_id = ''E001'', lr_status = ''Approved'',
                         lr_start_date = 738860, lr_end_date = 738882\<rparr>],
      office_holidays = [],
      attendance_dailies = [],
      pending = [],
      autoflush = True\<rparr>"

text \<open>Tables of ten rows, the last dated 2024-01-01: nine durations of 8 hours and one of
  20 hours, and eight durations of 0 hours, one of 20 and one of 21.\<close>

definition ex_frame :: "real list \<Rightarrow> dataframe" where
  "ex_frame durations =
     \<lparr>index_len = 10,
      col_employee_id = Some (replicate 10 ''E001''),
      col_date = Some [738877, 738878, 738879, 738880, 738881, 738882, 738883, 738884, 738885,
                       738886],
      col_entry_time = Some (map (\<lambda>d. ex_dt d 9 0)
                      [738877, 738878, 738879, 738880, 738881, 738882, 738883, 738884, 738885,
                       738886]),
      col_duration = Some durations,
      col_status = Some (replicate 10 ''PRESENT''),
      col_z = None\<rparr>"

definition ex_df_outlier :: dataframe where
  "ex_df_outlier = ex_frame [8, 8, 8, 8, 8, 8, 8, 8, 8, 20]"


text \<open>A store with four active employees in Eng and three in Ops; one in Ops has an
  approved leave of 20 days, one in Eng an approved leave of 2 days and one a pending
  request.\<close>

definition ex_emp :: "nat \<Rightarrow> string \<Rightarrow> string \<Rightarrow> user" where
  "ex_emp i e d = \<lparr>user_id = i, user_employee_id = e, user_name = e, user_department = d,
                   user_is_active = True\<rparr>"

definition ex_abuse_db :: session where
  "ex_abuse_db =
     \<lparr>users = [ex_emp 1 ''E001'' ''Eng'', ex_emp 2 ''E002'' ''Eng'', ex_emp 3 ''E003'' ''Eng'',
               ex_emp 4 ''E004'' ''Eng'', ex_emp 5 ''E005'' ''Ops'', ex_emp 6 ''E006'' ''Ops'',
               ex_emp 7 ''E007'' ''Ops''],
      attendances = [],
      leave_requests = [\<lparr>lr_employee_id = ''E005'', lr_status = ''Approved'',
                         lr_start_date = 738860, lr_end_date = 738879\<rparr>,
                        \<lparr>lr_employee_id = ''E001'', lr_status = ''Approved'',
                         lr_start_date = 738880, lr_end_date = 738881\<rparr>,
                        \<lparr>lr_employee_id = ''E002'', lr_status = ''Pending'',
                         lr_start_date = 738800, lr_end_date = 738850\<rparr>],
      office_holidays = [],
      attendance_dailies = [],
      pending = [],
      autoflush = True\<rparr>"

text \<open>A store with six active employees in department A and three in B, and one approved
  leave of 17 days in A: the average of A, 17/6, is exactly 1.5 times the average of the
  organization, 17/9.\<close>

definition ex_tie_db :: session where
  "ex_tie_db =
     \<lparr>users = [ex_emp 1 ''E001'' ''A'', ex_emp 2 ''E002'' ''A'', ex_emp 3 ''E003'' ''A'',
               ex_emp 4 ''E004'' ''A'', ex_emp 5 ''E005'' ''A'', ex_emp 6 ''E006'' ''A'',
               ex_emp 7 ''E007'' ''B'', ex_emp 8 ''E008'' ''B'', ex_emp 9 ''E009'' ''B''],
      attendances = [],
      leave_requests = [\<lparr>lr_employee_id = ''E001'', lr_status = ''Approved'',
                         lr_start_date = 738860, lr_end_date = 738876\<rparr>],
      office_holidays = [],
      attendance_dailies = [],
      pending = [],
      autoflush = True\<rparr>"

text \<open>A store with one active employee in department A, who has an approved leave of 3
  days, and one in B, who has an approved leave of 1 day: the average of A, 3, is 1.5 times
  the average of the organization, 2, in floats too.\<close>

definition ex_even_db :: session where
  "ex_even_db =
     \<lparr>users = [ex_emp 1 ''E001'' ''A'', ex_emp 2 ''E002'' ''B''],
      attendances = [],
      leave_requests = [\<lparr>lr_employee_id = ''E001'', lr_status = ''Approved'',
                         lr_start_date = 738860, lr_end_date = 738862\<rparr>,
                        \<lparr>lr_employee_id = ''E002'', lr_status = ''Approved'',
                         lr_start_date = 738860, lr_end_date = 738860\<rparr>],
      office_holidays = [],
      attendance_dailies = [],
      pending = [],
      autoflush = True\<rparr>"

section \<open>Verification of the attendance compiler\<close>

subsection \<open>Queries and the resolver\<close>

lemma first_None: "first xs = None \<longleftrightarrow> xs = []"
  by (cases xs) (simp_all add: first_def)

lemma first_find: "first (filter P xs) = find P xs"
  by (induction xs) (simp_all add: first_def)

lemma query_exists_iff:
  "query_exists db emp d \<noteq> None \<longleftrightarrow> (\<exists>r \<in> set (visible_dailies db). is_row_of emp d r)"
  by (auto simp: query_exists_def first_None filter_empty_conv is_row_of_def)

lemma weekday_range: "0 \<le> weekday d \<and> weekday d < 7"
  by (simp add: weekday_def)

lemma weekend_iff: "weekday d \<ge> 5 \<longleftrightarrow> is_weekend d"
  using weekday_range[of d] by (auto simp: is_weekend_def)

lemma query_leave_iff: "query_leave db emp d \<noteq> None \<longleftrightarrow> on_approved_leave db emp d"
  by (auto simp: query_leave_def first_None filter_empty_conv on_approved_leave_def)

lemma query_holiday_iff: "query_holiday db d \<noteq> None \<longleftrightarrow> is_holiday db d"
  by (auto simp: query_holiday_def first_None filter_empty_conv is_holiday_def)

lemma query_attendance_raw_fact: "query_attendance db emp d = raw_fact db emp d"
  by (simp add: query_attendance_def raw_fact_def first_find)

lemma resolve_status_spec: "resolve_status db emp d = spec_status db emp d"
  unfolding resolve_status_def spec_status_def query_leave_iff query_holiday_iff weekend_iff
    query_attendance_raw_fact
  by (simp split: option.splits)

subsection \<open>The compilation loop\<close>

lemma db_add_frame [simp]:
  "users (db_add r db) = users db" "attendances (db_add r db) = attendances db"
  "leave_requests (db_add r db) = leave_requests db"
  "office_holidays (db_add r db) = office_holidays db"
  "attendance_dailies (db_add r db) = attendance_dailies db"
  "autoflush (db_add r db) = autoflush db"
  "pending (db_add r db) = pending db @ [r]"
  by (simp_all add: db_add_def)

lemma compile_loop_frame:
  "users (compile_loop d us db) = users db \<and> attendances (compile_loop d us db) = attendances db \<and>
   leave_requests (compile_loop d us db) = leave_requests db \<and>
   office_holidays (compile_loop d us db) = office_holidays db \<and>
   attendance_dailies (compile_loop d us db) = attendance_dailies db \<and>
   autoflush (compile_loop d us db) = autoflush db"
  by (induction us arbitrary: db) simp_all

lemma compile_loop_pending: "\<exists>new. pending (compile_loop d us db) = pending db @ new"
proof (induction us arbitrary: db)
  case Nil
  then show ?case by simp
next
  case (Cons u us)
  show ?case
  proof (cases "query_exists db (user_employee_id u) d \<noteq> None")
    case True
    then show ?thesis using Cons.IH[of db] by simp
  next
    case False
    obtain new where "pending (compile_loop d us (db_add (new_daily db (user_employee_id u) d) db))
        = pending (db_add (new_daily db (user_employee_id u) d) db) @ new"
      using Cons.IH by blast
    then show ?thesis using False by simp
  qed
qed

lemma resolve_status_cong:
  "attendances db' = attendances db \<Longrightarrow> leave_requests db' = leave_requests db \<Longrightarrow>
   office_holidays db' = office_holidays db \<Longrightarrow> resolve_status db' e d = resolve_status db e d"
  by (simp add: resolve_status_def query_leave_def query_holiday_def query_attendance_def)

lemma new_daily_db_add [simp]: "new_daily (db_add r db) e d = new_daily db e d"
  by (simp add: new_daily_def resolve_status_cong[of "db_add r db" db])

lemma is_row_of_new_daily [simp]: "is_row_of e d (new_daily db e' d') \<longleftrightarrow> e' = e \<and> d' = d"
  by (auto simp: is_row_of_def new_daily_def)

lemma visible_db_add:
  "set (visible_dailies (db_add r db)) \<subseteq> insert r (set (visible_dailies db))"
  by (auto simp: visible_dailies_def)

lemma compile_loop_noop:
  "\<forall>u \<in> set us. query_exists db (user_employee_id u) d \<noteq> None \<Longrightarrow> compile_loop d us db = db"
  by (induction us) simp_all

lemma db_commit_no_pending: "pending db = [] \<Longrightarrow> db_commit db = db"
  by (simp add: db_commit_def)

lemma compile_loop_covers:
  "u \<in> set us \<Longrightarrow>
     (\<exists>r \<in> set (visible_dailies db). is_row_of (user_employee_id u) d r) \<or>
     new_daily db (user_employee_id u) d \<in> set (pending (compile_loop d us db))"
proof (induction us arbitrary: db)
  case Nil
  then show ?case by simp
next
  case (Cons v us)
  let ?row = "new_daily db (user_employee_id v) d"
  show ?case
  proof (cases "query_exists db (user_employee_id v) d \<noteq> None")
    case True
    show ?thesis
    proof (cases "u = v")
      case True
      with \<open>query_exists db (user_employee_id v) d \<noteq> None\<close> show ?thesis
        using query_exists_iff by blast
    next
      case False
      with Cons.prems have "u \<in> set us" by simp
      from Cons.IH[OF this, of db] True show ?thesis by simp
    qed
  next
    case False
    obtain new where new: "pending (compile_loop d us (db_add ?row db)) = pending db @ [?row] @ new"
      using compile_loop_pending[of d us "db_add ?row db"] by auto
    show ?thesis
    proof (cases "user_employee_id u = user_employee_id v")
      case True
      then show ?thesis using False new by simp
    next
      case ne: False
      with Cons.prems have "u \<in> set us" by auto
      from Cons.IH[OF this, of "db_add ?row db"]
      show ?thesis
      proof
        assume "\<exists>r\<in>set (visible_dailies (db_add ?row db)). is_row_of (user_employee_id u) d r"
        then obtain r where r: "r \<in> set (visible_dailies (db_add ?row db))"
          "is_row_of (user_employee_id u) d r" by blast
        from r(1) have "r = ?row \<or> r \<in> set (visible_dailies db)"
          using visible_db_add by blast
        with r(2) ne show ?thesis by auto
      next
        assume "new_daily (db_add ?row db) (user_employee_id u) d
                  \<in> set (pending (compile_loop d us (db_add ?row db)))"
        then show ?thesis using False by simp
      qed
    qed
  qed
qed

lemma compile_dailies:
  "attendance_dailies (compile_daily_attendance today db td) =
     attendance_dailies db @ pending (compile_loop (target_of today td) (active_users db) db)"
  by (simp add: compile_daily_attendance_def db_commit_def compile_loop_frame Let_def)

lemma compile_frame:
  "users (compile_daily_attendance today db td) = users db"
  "autoflush (compile_daily_attendance today db td) = autoflush db"
  "pending (compile_daily_attendance today db td) = []"
  by (simp_all add: compile_daily_attendance_def db_commit_def compile_loop_frame Let_def)

lemma visible_subset: "set (visible_dailies db) \<subseteq> set (attendance_dailies db) \<union> set (pending db)"
  by (auto simp: visible_dailies_def)

lemma compile_covers:
  assumes "u \<in> set (active_users db)"
  shows "\<exists>r \<in> set (attendance_dailies (compile_daily_attendance today db td)).
           is_row_of (user_employee_id u) (target_of today td) r"
proof -
  let ?d = "target_of today td"
  obtain new where new: "pending (compile_loop ?d (active_users db) db) = pending db @ new"
    using compile_loop_pending by blast
  from compile_loop_covers[OF assms, of db ?d]
  show ?thesis
  proof
    assume "\<exists>r\<in>set (visible_dailies db). is_row_of (user_employee_id u) ?d r"
    then show ?thesis using visible_subset[of db] new by (auto simp: compile_dailies)
  next
    assume "new_daily db (user_employee_id u) ?d \<in> set (pending (compile_loop ?d (active_users db) db))"
    then show ?thesis by (auto simp: compile_dailies intro!: bexI[of _ "new_daily db (user_employee_id u) ?d"])
  qed
qed

lemma compile_idem:
  "compile_daily_attendance today (compile_daily_attendance today db td) td =
   compile_daily_attendance today db td"
proof -
  let ?db1 = "compile_daily_attendance today db td"
  let ?d = "target_of today td"
  have act: "active_users ?db1 = active_users db"
    by (simp add: active_users_def compile_frame)
  have "\<forall>u \<in> set (active_users ?db1). query_exists ?db1 (user_employee_id u) ?d \<noteq> None"
  proof
    fix u assume "u \<in> set (active_users ?db1)"
    then have "u \<in> set (active_users db)" by (simp add: act)
    from compile_covers[OF this, of today td]
    show "query_exists ?db1 (user_employee_id u) ?d \<noteq> None"
      unfolding query_exists_iff visible_dailies_def by auto
  qed
  then have "compile_loop ?d (active_users ?db1) ?db1 = ?db1" by (rule compile_loop_noop)
  then have "compile_daily_attendance today ?db1 td = db_commit ?db1"
    by (simp add: compile_daily_attendance_def[of today ?db1] Let_def)
  also have "\<dots> = ?db1" by (rule db_commit_no_pending) (simp add: compile_frame)
  finally show ?thesis .
qed

subsection \<open>One row for an employee and a date\<close>

lemma query_exists_no_pending:
  assumes "\<not> (\<exists>r \<in> set (pending db). is_row_of e d r)"
  shows "query_exists db e d \<noteq> None \<longleftrightarrow> (\<exists>r \<in> set (attendance_dailies db). is_row_of e d r)"
  unfolding query_exists_iff using assms by (auto simp: visible_dailies_def)

lemma compile_loop_pending_exact:
  assumes "distinct (map user_employee_id us)"
    and "\<forall>u \<in> set us. \<not> (\<exists>r \<in> set (pending db). is_row_of (user_employee_id u) d r)"
  shows "pending (compile_loop d us db) =
      pending db @ map (\<lambda>u. new_daily db (user_employee_id u) d)
        (filter (\<lambda>u. \<not> (\<exists>r \<in> set (attendance_dailies db). is_row_of (user_employee_id u) d r)) us)"
  using assms
proof (induction us arbitrary: db)
  case Nil
  then show ?case by simp
next
  case (Cons v us)
  let ?row = "new_daily db (user_employee_id v) d"
  have dist: "distinct (map user_employee_id us)" using Cons.prems(1) by simp
  have nov: "\<not> (\<exists>r \<in> set (pending db). is_row_of (user_employee_id v) d r)"
    using Cons.prems(2) by simp
  show ?case
  proof (cases "query_exists db (user_employee_id v) d \<noteq> None")
    case True
    then have ex: "\<exists>r \<in> set (attendance_dailies db). is_row_of (user_employee_id v) d r"
      using query_exists_no_pending[OF nov] by simp
    have "pending (compile_loop d us db) =
      pending db @ map (\<lambda>u. new_daily db (user_employee_id u) d)
        (filter (\<lambda>u. \<not> (\<exists>r \<in> set (attendance_dailies db). is_row_of (user_employee_id u) d r)) us)"
      using Cons.IH[OF dist, of db] Cons.prems(2) by simp
    then show ?thesis using True ex by simp
  next
    case False
    then have nex: "\<not> (\<exists>r \<in> set (attendance_dailies db). is_row_of (user_employee_id v) d r)"
      using query_exists_no_pending[OF nov] by simp
    have "\<forall>u \<in> set us. \<not> (\<exists>r \<in> set (pending (db_add ?row db)). is_row_of (user_employee_id u) d r)"
      using Cons.prems by auto
    from Cons.IH[OF dist this]
    have "pending (compile_loop d us (db_add ?row db)) =
      (pending db @ [?row]) @ map (\<lambda>u. new_daily db (user_employee_id u) d)
        (filter (\<lambda>u. \<not> (\<exists>r \<in> set (attendance_dailies db). is_row_of (user_employee_id u) d r)) us)"
      by simp
    then show ?thesis using False nex by simp
  qed
qed

lemma filter_distinct_key:
  "distinct (map f us) \<Longrightarrow> u \<in> set us \<Longrightarrow> filter (\<lambda>v. f v = f u) us = [u]"
proof (induction us)
  case Nil
  then show ?case by simp
next
  case (Cons a us)
  show ?case
  proof (cases "a = u")
    case True
    have "f u \<notin> f ` set us" using Cons.prems(1) True by simp
    then have "\<forall>x \<in> set us. f x \<noteq> f u" by (metis imageI)
    then have "filter (\<lambda>v. f v = f u) us = []" by (simp add: filter_empty_conv)
    then show ?thesis using True by simp
  next
    case False
    then have "u \<in> set us" using Cons.prems(2) by simp
    moreover have "f a \<noteq> f u" using Cons.prems(1) \<open>u \<in> set us\<close> by auto
    ultimately show ?thesis using Cons by simp
  qed
qed

lemma rows_of_append: "rows_of e d (xs @ ys) = rows_of e d xs + rows_of e d ys"
  by (simp add: rows_of_def)

lemma rows_of_0: "rows_of e d xs = 0 \<longleftrightarrow> \<not> (\<exists>r \<in> set xs. is_row_of e d r)"
  by (auto simp: rows_of_def filter_empty_conv)

lemma rows_of_new:
  "rows_of e d (map (\<lambda>u. new_daily db (user_employee_id u) d) us) =
     length (filter (\<lambda>v. user_employee_id v = e) us)"
  by (induction us) (simp_all add: rows_of_def)

lemma compile_exactly_one:
  assumes np: "pending db = []"
    and dist: "distinct (map user_employee_id (active_users db))"
    and le1: "rows_of (user_employee_id u) (target_of today td) (attendance_dailies db) \<le> 1"
    and u: "u \<in> set (active_users db)"
  shows "rows_of (user_employee_id u) (target_of today td)
           (attendance_dailies (compile_daily_attendance today db td)) = 1"
proof -
  let ?d = "target_of today td"
  let ?e = "user_employee_id u"
  let ?P = "\<lambda>u. \<not> (\<exists>r \<in> set (attendance_dailies db). is_row_of (user_employee_id u) ?d r)"
  have pe: "pending (compile_loop ?d (active_users db) db) =
      map (\<lambda>u. new_daily db (user_employee_id u) ?d) (filter ?P (active_users db))"
    using compile_loop_pending_exact[OF dist, of db ?d] np by simp
  have cnt: "rows_of ?e ?d (attendance_dailies (compile_daily_attendance today db td)) =
      rows_of ?e ?d (attendance_dailies db) +
      length (filter (\<lambda>v. user_employee_id v = ?e) (filter ?P (active_users db)))"
    by (simp add: compile_dailies pe rows_of_append rows_of_new)
  have fl: "filter (\<lambda>v. user_employee_id v = ?e) (filter ?P (active_users db)) =
      filter ?P (filter (\<lambda>v. user_employee_id v = ?e) (active_users db))"
    by (simp add: conj_commute)
  have one: "filter (\<lambda>v. user_employee_id v = ?e) (active_users db) = [u]"
    using filter_distinct_key[OF dist u] .
  show ?thesis
  proof (cases "rows_of ?e ?d (attendance_dailies db) = 0")
    case True
    then have "?P u" by (simp add: rows_of_0)
    then show ?thesis using cnt fl one True by simp
  next
    case False
    then have "\<not> ?P u" by (simp add: rows_of_0)
    moreover have "rows_of ?e ?d (attendance_dailies db) = 1" using False le1 by simp
    ultimately show ?thesis using cnt fl one by simp
  qed
qed

lemma compile_funpow:
  "((\<lambda>s. compile_daily_attendance today s td) ^^ Suc n) db = compile_daily_attendance today db td"
proof (induction n)
  case 0
  then show ?case by simp
next
  case (Suc n)
  have "((\<lambda>s. compile_daily_attendance today s td) ^^ Suc (Suc n)) db =
        compile_daily_attendance today (((\<lambda>s. compile_daily_attendance today s td) ^^ Suc n) db) td"
    by simp
  also have "\<dots> = compile_daily_attendance today (compile_daily_attendance today db td) td"
    using Suc by simp
  finally show ?case by (simp only: compile_idem)
qed

subsection \<open>The claims on the compiler\<close>

lemma ex_spec: "spec_status ex_db ''E001'' 738886 = (''LEAVE'', None)"
  by (simp add: spec_status_def on_approved_leave_def ex_db_def)

text \<open>
  Claim C1. For every employee and date the status that \<open>compile_daily_attendance\<close>
  resolves is the one the precedence of the specification gives: an approved leave whose
  inclusive range contains the date gives LEAVE with no check-in; otherwise an office holiday
  gives HOLIDAY; otherwise a Saturday or Sunday gives WEEKEND; otherwise the first raw fact of
  the employee on the date gives PRESENT with the time of day of its entry time (none if it
  has no entry time), and no fact gives ABSENT. An approved leave always gives LEAVE, whether
  the date is a holiday or not. For every active employee that has no row for the target date
  yet, the compiled table holds the row with this status and check-in time.
\<close>

theorem resolver_precedence:
  "resolve_status db emp d = spec_status db emp d \<and>
   (on_approved_leave db emp d \<longrightarrow> resolve_status db emp d = (''LEAVE'', None)) \<and>
   (u \<in> set (users db) \<and> user_is_active u \<and>
    query_exists db (user_employee_id u) (target_of today td) = None \<longrightarrow>
      \<lparr>ad_employee_id = user_employee_id u, ad_date = target_of today td,
       ad_status = fst (spec_status db (user_employee_id u) (target_of today td)),
       ad_check_in_time = snd (spec_status db (user_employee_id u) (target_of today td))\<rparr>
      \<in> set (attendance_dailies (compile_daily_attendance today db td)))"
proof (intro conjI impI)
  show "resolve_status db emp d = spec_status db emp d" by (rule resolve_status_spec)
  show "resolve_status db emp d = (''LEAVE'', None)" if "on_approved_leave db emp d"
    using that by (simp add: resolve_status_spec spec_status_def)
next
  let ?d = "target_of today td"
  assume a: "u \<in> set (users db) \<and> user_is_active u \<and> query_exists db (user_employee_id u) ?d = None"
  then have act: "u \<in> set (active_users db)" by (simp add: active_users_def)
  have "\<not> (\<exists>r \<in> set (visible_dailies db). is_row_of (user_employee_id u) ?d r)"
    using a query_exists_iff by blast
  with compile_loop_covers[OF act, of db ?d]
  have "new_daily db (user_employee_id u) ?d \<in> set (pending (compile_loop ?d (active_users db) db))"
    by blast
  then have "new_daily db (user_employee_id u) ?d
      \<in> set (attendance_dailies (compile_daily_attendance today db td))"
    by (simp add: compile_dailies)
  then show "\<lparr>ad_employee_id = user_employee_id u, ad_date = ?d,
       ad_status = fst (spec_status db (user_employee_id u) ?d),
       ad_check_in_time = snd (spec_status db (user_employee_id u) ?d)\<rparr>
      \<in> set (attendance_dailies (compile_daily_attendance today db td))"
    by (simp add: new_daily_def resolve_status_spec)
qed

theorem resolver_precedence_witness:
  "on_approved_leave ex_db ''E001'' 738886 \<and> is_holiday ex_db 738886 \<and>
   resolve_status ex_db ''E001'' 738886 = (''LEAVE'', None) \<and>
   ex_user \<in> set (users ex_db) \<and> user_is_active ex_user \<and>
   query_exists ex_db (user_employee_id ex_user) (target_of 738886 None) = None \<and>
   \<lparr>ad_employee_id = ''E001'', ad_date = 738886, ad_status = ''LEAVE'', ad_check_in_time = None\<rparr>
     \<in> set (attendance_dailies (compile_daily_attendance 738886 ex_db None))"
proof -
  have l: "on_approved_leave ex_db ''E001'' 738886"
    by (simp add: on_approved_leave_def ex_db_def)
  have h: "is_holiday ex_db 738886" by (simp add: is_holiday_def ex_db_def)
  have u: "ex_user \<in> set (users ex_db)" "user_is_active ex_user"
    by (simp_all add: ex_db_def ex_user_def)
  have q: "query_exists ex_db (user_employee_id ex_user) (target_of 738886 None) = None"
    by (simp add: query_exists_def visible_dailies_def ex_db_def first_def)
  have e: "user_employee_id ex_user = ''E001''" "target_of 738886 None = 738886"
    by (simp_all add: ex_user_def target_of_def)
  show ?thesis
    using resolver_precedence[of ex_db "''E001''" 738886 ex_user 738886 None] l h u q
    by (simp add: e ex_spec)
qed

text \<open>
  Claim C2. Compiling the same target date a second time gives the same session as compiling
  it once; the rows the table had before a run are still there, in place, after it; after a
  run every active employee has a row for the date, so that a second run skips every one of
  them; and when the session has no pending object, the active employees have distinct
  employee ids and the table has at most one row for the employee and the date, then after
  any number of runs (at least one) it has exactly one.
\<close>

theorem compile_idempotent:
  "compile_daily_attendance today (compile_daily_attendance today db td) td =
     compile_daily_attendance today db td \<and>
   (\<exists>new. attendance_dailies (compile_daily_attendance today db td) =
            attendance_dailies db @ new) \<and>
   (u \<in> set (active_users db) \<longrightarrow>
      query_exists (compile_daily_attendance today db td) (user_employee_id u)
        (target_of today td) \<noteq> None) \<and>
   (pending db = [] \<and> distinct (map user_employee_id (active_users db)) \<and>
    rows_of (user_employee_id u) (target_of today td) (attendance_dailies db) \<le> 1 \<and>
    u \<in> set (active_users db) \<longrightarrow>
      rows_of (user_employee_id u) (target_of today td)
        (attendance_dailies (((\<lambda>s. compile_daily_attendance today s td) ^^ Suc n) db)) = 1)"
proof (intro conjI impI)
  show "compile_daily_attendance today (compile_daily_attendance today db td) td =
     compile_daily_attendance today db td" by (rule compile_idem)
  show "\<exists>new. attendance_dailies (compile_daily_attendance today db td) = attendance_dailies db @ new"
    by (simp add: compile_dailies)
  show "query_exists (compile_daily_attendance today db td) (user_employee_id u)
        (target_of today td) \<noteq> None" if "u \<in> set (active_users db)"
    using compile_covers[OF that, of today td]
    unfolding query_exists_iff visible_dailies_def by auto
next
  assume "pending db = [] \<and> distinct (map user_employee_id (active_users db)) \<and>
    rows_of (user_employee_id u) (target_of today td) (attendance_dailies db) \<le> 1 \<and>
    u \<in> set (active_users db)"
  then show "rows_of (user_employee_id u) (target_of today td)
        (attendance_dailies (((\<lambda>s. compile_daily_attendance today s td) ^^ Suc n) db)) = 1"
    by (simp only: compile_funpow compile_exactly_one)
qed

theorem compile_idempotent_witness:
  "pending ex_db = [] \<and> distinct (map user_employee_id (active_users ex_db)) \<and>
   rows_of (user_employee_id ex_user) (target_of 738886 None) (attendance_dailies ex_db) \<le> 1 \<and>
   ex_user \<in> set (active_users ex_db) \<and>
   query_exists (compile_daily_attendance 738886 ex_db None) (user_employee_id ex_user)
     (target_of 738886 None) \<noteq> None \<and>
   rows_of (user_employee_id ex_user) (target_of 738886 None)
     (attendance_dailies (((\<lambda>s. compile_daily_attendance 738886 s None) ^^ Suc 1) ex_db)) = 1"
proof -
  have a: "active_users ex_db = [ex_user]"
    by (simp add: active_users_def ex_db_def ex_user_def)
  have h: "pending ex_db = []" "distinct (map user_employee_id (active_users ex_db))"
    "rows_of (user_employee_id ex_user) (target_of 738886 None) (attendance_dailies ex_db) \<le> 1"
    "ex_user \<in> set (active_users ex_db)"
    unfolding a by (simp_all add: ex_db_def rows_of_def)
  show ?thesis
    using compile_idempotent[of 738886 ex_db None ex_user 1] h by (simp add: compile_idem)
qed

section \<open>Verification of the attendance intelligence\<close>

subsection \<open>Metrics engine\<close>

lemma metrics_default_lemma:
  "df_empty df \<or> col_entry_time df = None \<Longrightarrow>
     compute_behavior_metrics df db employee_id = Inr default_metrics"
  by (auto simp: compute_behavior_metrics_def)

lemma metrics_full:
  assumes "\<not> df_empty df" "col_entry_time df = Some et" "col_status df = Some st"
    "col_duration df = Some du"
  shows "compute_behavior_metrics df db employee_id =
     Inr \<lparr>average_login_hour = round2_opt (series_mean (map real (map hour_of et))),
          average_work_hours = round2_opt (series_mean du),
          late_arrival_days = int (length (filter (\<lambda>h. h > 10) (map hour_of et))),
          absent_days = int (length (filter (\<lambda>s. s = ''ABSENT'') st)),
          leave_days = leave_calculation db employee_id,
          present_days = int (length (filter (\<lambda>s. s = ''PRESENT'') st)),
          min_work_hours = round2_opt (series_min du),
          max_work_hours = round2_opt (series_max du),
          total_days_analyzed = df_len df,
          absence_trend = ''stable'',
          attendance_score =
            score_of (int (length (filter (\<lambda>s. s = ''PRESENT'') st)))
              (int (length (filter (\<lambda>h. h > 10) (map hour_of et))))
              (int (length (filter (\<lambda>s. s = ''ABSENT'') st)))
              (leave_calculation db employee_id),
          risk_level = risk_level_of
            (score_of (int (length (filter (\<lambda>s. s = ''PRESENT'') st)))
              (int (length (filter (\<lambda>h. h > 10) (map hour_of et))))
              (int (length (filter (\<lambda>s. s = ''ABSENT'') st)))
              (leave_calculation db employee_id)),
          chart_labels = [''Present'', ''Absent'', ''Leave'', ''Late''],
          chart_values = [int (length (filter (\<lambda>s. s = ''PRESENT'') st)),
                          int (length (filter (\<lambda>s. s = ''ABSENT'') st)),
                          leave_calculation db employee_id,
                          int (length (filter (\<lambda>h. h > 10) (map hour_of et)))]\<rparr>"
  using assms by (simp add: compute_behavior_metrics_def Let_def)

lemma score_of_formula:
  "score_of present late absent lv =
     (if present = 0 then 0 else max 0 (100 - 2 * late - 6 * absent - 1 * lv))"
  by (simp add: score_of_def Let_def mult.commute)

lemma score_of_bounds:
  "0 \<le> score_of present late absent lv"
  "0 \<le> late \<Longrightarrow> 0 \<le> absent \<Longrightarrow> 0 \<le> lv \<Longrightarrow> score_of present late absent lv \<le> 100"
  by (simp_all add: score_of_def Let_def)

lemma fold_leave_nonneg:
  "\<forall>l \<in> set ls. lr_start_date l \<le> lr_end_date l \<Longrightarrow> 0 \<le> acc \<Longrightarrow>
   0 \<le> fold (\<lambda>l leave_days'. leave_days' + ((lr_end_date l - lr_start_date l) + 1)) ls acc"
  by (induction ls arbitrary: acc) simp_all

lemma fold_leave_sum:
  "fold (\<lambda>l leave_days'. leave_days' + ((lr_end_date l - lr_start_date l) + 1)) ls acc =
   acc + (\<Sum>l\<leftarrow>ls. (lr_end_date l - lr_start_date l) + 1)"
  by (induction ls arbitrary: acc) simp_all

lemma leave_calculation_empty_id: "leave_calculation db (Some []) = 0"
  by (simp add: leave_calculation_def truthy_str_def)

lemma leave_calculation_None: "leave_calculation None e = 0" "leave_calculation db None = 0"
  by (simp_all add: leave_calculation_def truthy_str_def truthy_db_def)

lemma leave_calculation_Some:
  "emp \<noteq> [] \<Longrightarrow> leave_calculation (Some d) (Some emp) =
     (\<Sum>l\<leftarrow>approved_leaves_of d emp. (lr_end_date l - lr_start_date l) + 1)"
  by (simp add: leave_calculation_def truthy_str_def truthy_db_def fold_leave_sum)

lemma metrics_cases:
  "compute_behavior_metrics df db employee_id = Inr m \<Longrightarrow>
     m = default_metrics \<or> leave_days m = leave_calculation db employee_id"
  by (auto simp: compute_behavior_metrics_def Let_def split: if_splits option.splits)

lemma leave_calculation_nonneg:
  "\<forall>l \<in> set (leave_requests d). lr_start_date l \<le> lr_end_date l \<Longrightarrow>
   0 \<le> leave_calculation (Some d) employee_id"
  unfolding leave_calculation_def approved_leaves_of_def
  by (auto split: option.splits intro!: fold_leave_nonneg)

lemma ex_df_fields:
  "\<not> df_empty ex_df" "has_required_fields ex_df"
  by (simp_all add: ex_df_def df_empty_def df_columns_def has_required_fields_def)

lemma ex_leave: "leave_calculation (Some ex_db) (Some ''E001'') = 3"
  by (simp add: leave_calculation_def truthy_str_def truthy_db_def approved_leaves_of_def ex_db_def)

lemma ex_counts:
  "col_entry_time ex_df = Some [ex_dt 738880 9 5, ex_dt 738881 11 30, ex_dt 738882 12 0]"
  "col_status ex_df = Some [''PRESENT'', ''ABSENT'', ''PRESENT'']"
  "col_duration ex_df = Some [8, 0, 15/2]"
  by (simp_all add: ex_df_def)

lemma ex_metrics:
  "\<exists>m. compute_behavior_metrics ex_df (Some ex_db) (Some ''E001'') = Inr m \<and>
     present_days m = 2 \<and> late_arrival_days m = 2 \<and> absent_days m = 1 \<and> leave_days m = 3 \<and>
     attendance_score m = 87"
  unfolding metrics_full[OF ex_df_fields(1) ex_counts]
  by (intro exI conjI; (rule refl)?)
     (simp_all add: ex_leave score_of_def hour_of_def ex_dt_def)

lemma ex_leave_att: "leave_calculation (Some ex_att_db) (Some ''E001'') = 3"
  by (simp add: leave_calculation_def truthy_str_def truthy_db_def approved_leaves_of_def
      ex_att_db_def ex_db_def)

subsection \<open>Data ingestion\<close>

lemma duration_or_0_eq: "duration_or_0 d = (case d of None \<Rightarrow> 0 | Some v \<Rightarrow> v)"
  by (simp add: duration_or_0_def split: option.splits)

lemma ingest_loop_eq: "ingest_loop rows data = data @ List.map_filter fact_row_of rows"
proof (induction rows arbitrary: data)
  case Nil
  then show ?case by (simp add: List.map_filter_simps)
next
  case (Cons r rows)
  show ?case
  proof (cases "att_entry_time r")
    case None
    then show ?thesis using Cons by (simp add: List.map_filter_simps fact_row_of_def)
  next
    case (Some t)
    then show ?thesis using Cons
      by (simp add: List.map_filter_simps fact_row_of_def duration_or_0_eq)
  qed
qed

lemma query_filter_eq:
  "(if truthy_str employee_id
    then filter (\<lambda>a. Some (att_employee_id a) = employee_id) xs else xs) =
   filter (for_employee employee_id) xs"
  by (cases employee_id) (auto simp: truthy_str_def for_employee_def intro: filter_cong)

lemma get_attendance_rows_eq:
  "get_attendance_rows today db employee_id =
     List.map_filter fact_row_of
       (filter (\<lambda>a. for_employee employee_id a \<and> today - 180 \<le> att_date a) (attendances db))"
  by (simp add: get_attendance_rows_def Let_def query_filter_eq ingest_loop_eq conj_commute)

lemma set_map_filter: "set (List.map_filter f xs) = {y. \<exists>x \<in> set xs. f x = Some y}"
  by (induction xs) (auto simp: List.map_filter_simps split: option.splits)

lemma fact_row_of_Some:
  "fact_row_of a = Some r \<longleftrightarrow>
     (\<exists>t. att_entry_time a = Some t \<and>
          r = \<lparr>fr_employee_id = att_employee_id a, fr_date = att_date a, fr_entry_time = t,
               fr_duration = (case att_duration a of None \<Rightarrow> 0 | Some v \<Rightarrow> v),
               fr_status = att_status a\<rparr>)"
  by (auto simp: fact_row_of_def split: option.splits)

lemma ex_rows_E001:
  "get_attendance_rows 738886 ex_att_db (Some ''E001'') =
     [\<lparr>fr_employee_id = ''E001'', fr_date = 738880, fr_entry_time = ex_dt 738880 9 5,
       fr_duration = 8, fr_status = ''PRESENT''\<rparr>,
      \<lparr>fr_employee_id = ''E001'', fr_date = 738887, fr_entry_time = ex_dt 738887 10 0,
       fr_duration = 4, fr_status = ''ABSENT''\<rparr>]"
  by (simp add: get_attendance_rows_def truthy_str_def ex_att_db_def duration_or_0_def)

lemma ex_rows_all:
  "get_attendance_rows 738886 ex_att_db (Some '''') =
     [\<lparr>fr_employee_id = ''E001'', fr_date = 738880, fr_entry_time = ex_dt 738880 9 5,
       fr_duration = 8, fr_status = ''PRESENT''\<rparr>,
      \<lparr>fr_employee_id = ''E002'', fr_date = 738882, fr_entry_time = ex_dt 738882 11 30,
       fr_duration = 0, fr_status = ''PRESENT''\<rparr>,
      \<lparr>fr_employee_id = ''E001'', fr_date = 738887, fr_entry_time = ex_dt 738887 10 0,
       fr_duration = 4, fr_status = ''ABSENT''\<rparr>]"
  by (simp add: get_attendance_rows_def truthy_str_def ex_att_db_def duration_or_0_def)

lemma wf_df_DataFrame: "wf_df (DataFrame data)"
  by (simp add: wf_df_def col_ok_def DataFrame_def)


subsection \<open>The claims on the metrics engine and the data ingestion\<close>

text \<open>
  Claim C3, as the code has it. For every table that is empty or has no \<open>entry_time\<close>
  field, every employee identifier and every session (given or not),
  \<open>compute_behavior_metrics\<close> returns the default report and raises nothing:
  \<open>attendance_score\<close> 0, \<open>risk_level\<close> "high", an empty chart, every count 0 and every
  average 0.
\<close>

theorem metrics_default:
  "(df_empty df \<or> col_entry_time df = None \<longrightarrow>
      compute_behavior_metrics df db employee_id = Inr default_metrics) \<and>
   attendance_score default_metrics = 0 \<and> risk_level default_metrics = ''high'' \<and>
   chart_labels default_metrics = [] \<and> chart_values default_metrics = [] \<and>
   late_arrival_days default_metrics = 0 \<and> absent_days default_metrics = 0 \<and>
   leave_days default_metrics = 0 \<and> present_days default_metrics = 0 \<and>
   total_days_analyzed default_metrics = 0 \<and>
   average_login_hour default_metrics = Some 0 \<and> average_work_hours default_metrics = Some 0 \<and>
   min_work_hours default_metrics = Some 0 \<and> max_work_hours default_metrics = Some 0"
  by (auto simp: metrics_default_lemma) (simp_all add: default_metrics_def)

theorem metrics_default_witness:
  "df_empty (DataFrame []) \<and>
   compute_behavior_metrics (DataFrame []) (Some ex_db) (Some ''E001'') = Inr default_metrics \<and>
   col_entry_time (ex_df\<lparr>col_entry_time := None\<rparr>) = None \<and>
   compute_behavior_metrics (ex_df\<lparr>col_entry_time := None\<rparr>) None None = Inr default_metrics"
proof -
  have a: "df_empty (DataFrame [])" by (simp add: df_empty_def DataFrame_def)
  have b: "col_entry_time (ex_df\<lparr>col_entry_time := None\<rparr>) = None" by simp
  show ?thesis
    using metrics_default[of "DataFrame []" "Some ex_db" "Some ''E001''"]
      metrics_default[of "ex_df\<lparr>col_entry_time := None\<rparr>" None None] a b
    by simp
qed

text \<open>
  Claim C3 as it is stated does not hold for every table that lacks a required field: a
  non-empty table with an \<open>entry_time\<close> field and no \<open>status\<close> field raises \<open>KeyError\<close>.
\<close>

theorem metrics_missing_status_counterexample:
  "\<not> df_empty ex_df_no_status \<and> \<not> has_required_fields ex_df_no_status \<and>
   compute_behavior_metrics ex_df_no_status None None = Inl (KeyError ''status'')"
  by (simp add: compute_behavior_metrics_def df_empty_def df_columns_def has_required_fields_def
      ex_df_no_status_def)

text \<open>
  Claim C4. For every non-empty table with the fields \<open>entry_time\<close>, \<open>status\<close> and
  \<open>duration\<close>, \<open>compute_behavior_metrics\<close> returns a report whose \<open>attendance_score\<close> is
  100 minus 2 times \<open>late_arrival_days\<close> minus 6 times \<open>absent_days\<close> minus \<open>leave_days\<close>,
  clamped below at 0, and 0 when \<open>present_days\<close> is 0. The two counts of rows are not
  negative, the score is never negative, and it is at most 100 when \<open>leave_days\<close> is not
  negative, which is so when no leave request of the store ends before it starts.
\<close>

theorem attendance_score_formula:
  "(\<not> df_empty df \<and> has_required_fields df \<longrightarrow>
     (\<exists>m. compute_behavior_metrics df db employee_id = Inr m \<and>
        leave_days m = leave_calculation db employee_id \<and>
        attendance_score m =
          (if present_days m = 0 then 0
           else max 0 (100 - 2 * late_arrival_days m - 6 * absent_days m - 1 * leave_days m)) \<and>
        0 \<le> late_arrival_days m \<and> 0 \<le> absent_days m \<and>
        0 \<le> attendance_score m \<and>
        (present_days m = 0 \<longrightarrow> attendance_score m = 0) \<and>
        (0 \<le> leave_days m \<longrightarrow> attendance_score m \<le> 100))) \<and>
   ((\<forall>l \<in> set (leave_requests d). lr_start_date l \<le> lr_end_date l) \<longrightarrow>
      0 \<le> leave_calculation (Some d) employee_id)"
proof (intro conjI impI)
  assume a: "\<not> df_empty df \<and> has_required_fields df"
  then obtain et st du where c: "col_entry_time df = Some et" "col_status df = Some st"
    "col_duration df = Some du"
    by (auto simp: has_required_fields_def)
  from a have ne: "\<not> df_empty df" by simp
  show "\<exists>m. compute_behavior_metrics df db employee_id = Inr m \<and>
        leave_days m = leave_calculation db employee_id \<and>
        attendance_score m =
          (if present_days m = 0 then 0
           else max 0 (100 - 2 * late_arrival_days m - 6 * absent_days m - 1 * leave_days m)) \<and>
        0 \<le> late_arrival_days m \<and> 0 \<le> absent_days m \<and>
        0 \<le> attendance_score m \<and>
        (present_days m = 0 \<longrightarrow> attendance_score m = 0) \<and>
        (0 \<le> leave_days m \<longrightarrow> attendance_score m \<le> 100)"
    unfolding metrics_full[OF ne c]
    by (intro exI conjI impI; (rule refl)?)
       (simp_all add: score_of_formula score_of_bounds del: of_nat_less_0_iff)
next
  assume "\<forall>l \<in> set (leave_requests d). lr_start_date l \<le> lr_end_date l"
  then show "0 \<le> leave_calculation (Some d) employee_id" by (rule leave_calculation_nonneg)
qed

theorem attendance_score_formula_witness:
  "\<not> df_empty ex_df \<and> has_required_fields ex_df \<and>
   list_all (\<lambda>l. lr_start_date l \<le> lr_end_date l) (leave_requests ex_db) \<and>
   0 \<le> leave_calculation (Some ex_db) (Some ''E001'') \<and>
   (\<exists>m. compute_behavior_metrics ex_df (Some ex_db) (Some ''E001'') = Inr m \<and>
      present_days m = 2 \<and> late_arrival_days m = 2 \<and> absent_days m = 1 \<and> leave_days m = 3 \<and>
      attendance_score m = 87 \<and> attendance_score m = max 0 (100 - 2 * 2 - 6 * 1 - 1 * 3) \<and>
      0 \<le> attendance_score m \<and> attendance_score m \<le> 100)"
proof -
  have wf: "list_all (\<lambda>l. lr_start_date l \<le> lr_end_date l) (leave_requests ex_db)"
    by (simp add: ex_db_def)
  then have wf': "\<forall>l \<in> set (leave_requests ex_db). lr_start_date l \<le> lr_end_date l"
    by (simp add: list_all_iff)
  from attendance_score_formula[of ex_df "Some ex_db" "Some ''E001''" ex_db] ex_df_fields wf'
  have nn: "0 \<le> leave_calculation (Some ex_db) (Some ''E001'')" by blast
  from ex_metrics obtain m where m:
    "compute_behavior_metrics ex_df (Some ex_db) (Some ''E001'') = Inr m"
    "present_days m = 2" "late_arrival_days m = 2" "absent_days m = 1" "leave_days m = 3"
    "attendance_score m = 87" by blast
  from attendance_score_formula[of ex_df "Some ex_db" "Some ''E001''" ex_db] ex_df_fields m
  have "0 \<le> attendance_score m \<and> attendance_score m \<le> 100" by simp
  with m ex_df_fields wf nn show ?thesis by simp
qed

text \<open>
  Claim C6, as the code has it. For every store and every optional employee identifier,
  \<open>get_attendance_dataframe\<close> returns, in the order of the store, exactly the raw facts
  that have an entry time and are dated on or after today minus 180 days, of the given
  employee when the identifier is given and not empty and of every employee otherwise; the
  duration of a row is 0 when the fact has none. No later bound is applied to the date.
\<close>

theorem attendance_window:
  "get_attendance_rows today db employee_id =
     List.map_filter fact_row_of
       (filter (\<lambda>a. for_employee employee_id a \<and> today - 180 \<le> att_date a) (attendances db)) \<and>
   get_attendance_dataframe today db employee_id =
     DataFrame (get_attendance_rows today db employee_id) \<and>
   set (get_attendance_rows today db employee_id) =
     {r. \<exists>a \<in> set (attendances db). for_employee employee_id a \<and> today - 180 \<le> att_date a \<and>
           (\<exists>t. att_entry_time a = Some t \<and>
             r = \<lparr>fr_employee_id = att_employee_id a, fr_date = att_date a, fr_entry_time = t,
                  fr_duration = (case att_duration a of None \<Rightarrow> 0 | Some v \<Rightarrow> v),
                  fr_status = att_status a\<rparr>)}"
proof (intro conjI)
  show "get_attendance_rows today db employee_id =
     List.map_filter fact_row_of
       (filter (\<lambda>a. for_employee employee_id a \<and> today - 180 \<le> att_date a) (attendances db))"
    by (rule get_attendance_rows_eq)
  show "get_attendance_dataframe today db employee_id =
     DataFrame (get_attendance_rows today db employee_id)"
    by (simp add: get_attendance_dataframe_def)
  show "set (get_attendance_rows today db employee_id) =
     {r. \<exists>a \<in> set (attendances db). for_employee employee_id a \<and> today - 180 \<le> att_date a \<and>
           (\<exists>t. att_entry_time a = Some t \<and>
             r = \<lparr>fr_employee_id = att_employee_id a, fr_date = att_date a, fr_entry_time = t,
                  fr_duration = (case att_duration a of None \<Rightarrow> 0 | Some v \<Rightarrow> v),
                  fr_status = att_status a\<rparr>)}"
    unfolding get_attendance_rows_eq set_map_filter fact_row_of_Some by auto
qed

text \<open>
  Claim C6 as it is stated bounds the date by today; a fact dated tomorrow is returned.
\<close>

theorem attendance_window_counterexample:
  "\<lparr>fr_employee_id = ''E001'', fr_date = 738887, fr_entry_time = ex_dt 738887 10 0,
     fr_duration = 4, fr_status = ''ABSENT''\<rparr>
     \<in> set (get_attendance_rows 738886 ex_att_db (Some ''E001'')) \<and>
   \<not> in_window 738886 180 738887 \<and>
   col_date (get_attendance_dataframe 738886 ex_att_db (Some ''E001'')) = Some [738880, 738887]"
  by (simp add: ex_rows_E001 in_window_def get_attendance_dataframe_def DataFrame_def)

lemma ex_all_facts:
  "List.map_filter fact_row_of (filter (\<lambda>a. 738886 - 180 \<le> att_date a) (attendances ex_att_db)) =
     [\<lparr>fr_employee_id = ''E001'', fr_date = 738880, fr_entry_time = ex_dt 738880 9 5,
       fr_duration = 8, fr_status = ''PRESENT''\<rparr>,
      \<lparr>fr_employee_id = ''E002'', fr_date = 738882, fr_entry_time = ex_dt 738882 11 30,
       fr_duration = 0, fr_status = ''PRESENT''\<rparr>,
      \<lparr>fr_employee_id = ''E001'', fr_date = 738887, fr_entry_time = ex_dt 738887 10 0,
       fr_duration = 4, fr_status = ''ABSENT''\<rparr>]"
  by (simp add: ex_att_db_def fact_row_of_def List.map_filter_simps)

text \<open>
  Claim C10. The empty string as employee identifier is treated as no identifier:
  \<open>get_attendance_dataframe\<close> returns the table it returns for \<open>None\<close>, whose rows are the
  facts of all employees that are dated within the last 180 days and have an entry time
  (the table without fields when there is none), and \<open>compute_behavior_metrics\<close> gives the
  result it gives with no employee and no session, so that \<open>leave_days\<close> is 0 whatever
  session is given.
\<close>

theorem empty_employee_id_means_all:
  "get_attendance_dataframe today db (Some '''') = get_attendance_dataframe today db None \<and>
   get_attendance_rows today db (Some '''') =
     ingest_loop (filter (\<lambda>a. att_date a \<ge> today - 180) (attendances db)) [] \<and>
   (let rows = List.map_filter fact_row_of
                 (filter (\<lambda>a. today - 180 \<le> att_date a) (attendances db))
    in get_attendance_dataframe today db (Some '''') =
         (if rows = []
          then \<lparr>index_len = 0, col_employee_id = None, col_date = None, col_entry_time = None,
                col_duration = None, col_status = None, col_z = None\<rparr>
          else \<lparr>index_len = length rows,
                col_employee_id = Some (map fr_employee_id rows),
                col_date = Some (map fr_date rows),
                col_entry_time = Some (map fr_entry_time rows),
                col_duration = Some (map fr_duration rows),
                col_status = Some (map fr_status rows),
                col_z = None\<rparr>)) \<and>
   compute_behavior_metrics df dbo (Some '''') = compute_behavior_metrics df None None \<and>
   (compute_behavior_metrics df dbo (Some '''') = Inr m \<longrightarrow> leave_days m = 0)"
proof (intro conjI impI)
  show "get_attendance_dataframe today db (Some '''') = get_attendance_dataframe today db None"
    by (simp add: get_attendance_dataframe_def get_attendance_rows_def truthy_str_def)
  show "get_attendance_rows today db (Some '''') =
     ingest_loop (filter (\<lambda>a. att_date a \<ge> today - 180) (attendances db)) []"
    by (simp add: get_attendance_rows_def truthy_str_def)
  have "get_attendance_rows today db (Some '''') =
      List.map_filter fact_row_of (filter (\<lambda>a. today - 180 \<le> att_date a) (attendances db))"
    by (simp add: get_attendance_rows_eq for_employee_def)
  then show "let rows = List.map_filter fact_row_of
                 (filter (\<lambda>a. today - 180 \<le> att_date a) (attendances db))
    in get_attendance_dataframe today db (Some '''') =
         (if rows = []
          then \<lparr>index_len = 0, col_employee_id = None, col_date = None, col_entry_time = None,
                col_duration = None, col_status = None, col_z = None\<rparr>
          else \<lparr>index_len = length rows,
                col_employee_id = Some (map fr_employee_id rows),
                col_date = Some (map fr_date rows),
                col_entry_time = Some (map fr_entry_time rows),
                col_duration = Some (map fr_duration rows),
                col_status = Some (map fr_status rows),
                col_z = None\<rparr>)"
    by (simp add: get_attendance_dataframe_def DataFrame_def Let_def)
  show "compute_behavior_metrics df dbo (Some '''') = compute_behavior_metrics df None None"
    by (simp add: compute_behavior_metrics_def Let_def leave_calculation_empty_id
        leave_calculation_None split: option.splits)
  show "leave_days m = 0" if "compute_behavior_metrics df dbo (Some '''') = Inr m"
    using metrics_cases[OF that] by (auto simp: leave_calculation_empty_id default_metrics_def)
qed

theorem empty_employee_id_means_all_witness:
  "get_attendance_rows 738886 ex_att_db (Some '''') =
     [\<lparr>fr_employee_id = ''E001'', fr_date = 738880, fr_entry_time = ex_dt 738880 9 5,
       fr_duration = 8, fr_status = ''PRESENT''\<rparr>,
      \<lparr>fr_employee_id = ''E002'', fr_date = 738882, fr_entry_time = ex_dt 738882 11 30,
       fr_duration = 0, fr_status = ''PRESENT''\<rparr>,
      \<lparr>fr_employee_id = ''E001'', fr_date = 738887, fr_entry_time = ex_dt 738887 10 0,
       fr_duration = 4, fr_status = ''ABSENT''\<rparr>] \<and>
   get_attendance_dataframe 738886 ex_att_db (Some '''') =
     \<lparr>index_len = 3,
      col_employee_id = Some [''E001'', ''E002'', ''E001''],
      col_date = Some [738880, 738882, 738887],
      col_entry_time = Some [ex_dt 738880 9 5, ex_dt 738882 11 30, ex_dt 738887 10 0],
      col_duration = Some [8, 0, 4],
      col_status = Some [''PRESENT'', ''PRESENT'', ''ABSENT''],
      col_z = None\<rparr> \<and>
   col_employee_id (get_attendance_dataframe 738886 ex_att_db (Some ''E001'')) =
     Some [''E001'', ''E001''] \<and>
   leave_calculation (Some ex_att_db) (Some ''E001'') = 3 \<and>
   (\<exists>m. compute_behavior_metrics ex_df (Some ex_att_db) (Some '''') = Inr m \<and> leave_days m = 0)"
proof -
  obtain m where m: "compute_behavior_metrics ex_df (Some ex_att_db) (Some '''') = Inr m"
    unfolding metrics_full[OF ex_df_fields(1) ex_counts] by blast
  from empty_employee_id_means_all[of 738886 ex_att_db ex_df "Some ex_att_db" m] m
  have l: "leave_days m = 0" by blast
  from empty_employee_id_means_all[of 738886 ex_att_db ex_df "Some ex_att_db" m]
  have "let rows = List.map_filter fact_row_of
                 (filter (\<lambda>a. 738886 - 180 \<le> att_date a) (attendances ex_att_db))
    in get_attendance_dataframe 738886 ex_att_db (Some '''') =
         (if rows = []
          then \<lparr>index_len = 0, col_employee_id = None, col_date = None, col_entry_time = None,
                col_duration = None, col_status = None, col_z = None\<rparr>
          else \<lparr>index_len = length rows,
                col_employee_id = Some (map fr_employee_id rows),
                col_date = Some (map fr_date rows),
                col_entry_time = Some (map fr_entry_time rows),
                col_duration = Some (map fr_duration rows),
                col_status = Some (map fr_status rows),
                col_z = None\<rparr>)" by blast
  then have d: "get_attendance_dataframe 738886 ex_att_db (Some '''') =
     \<lparr>index_len = 3,
      col_employee_id = Some [''E001'', ''E002'', ''E001''],
      col_date = Some [738880, 738882, 738887],
      col_entry_time = Some [ex_dt 738880 9 5, ex_dt 738882 11 30, ex_dt 738887 10 0],
      col_duration = Some [8, 0, 4],
      col_status = Some [''PRESENT'', ''PRESENT'', ''ABSENT''],
      col_z = None\<rparr>"
    unfolding ex_all_facts by (simp add: Let_def)
  have s: "col_employee_id (get_attendance_dataframe 738886 ex_att_db (Some ''E001'')) =
     Some [''E001'', ''E001'']"
    by (simp add: get_attendance_dataframe_def ex_rows_E001 DataFrame_def)
  from m l d s show ?thesis by (simp add: ex_rows_all ex_leave_att)
qed

subsection \<open>Anomaly detection\<close>




lemma series_std_sample: "1 < length xs \<Longrightarrow> series_std xs = Some (sample_std xs)"
  by (simp add: series_std_def sample_std_def sample_var_def)




lemma sample_std_pos: "0 < sample_std xs \<longleftrightarrow> 0 < sample_var xs"
  by (simp add: sample_std_def)




lemma detect_columns:
  assumes "\<not> df_empty df" "col_duration df = Some du" "10 \<le> index_len df"
    "length du = index_len df" "0 < sample_var du"
  shows "col_z (snd (detect_attendance_anomalies df)) =
     Some (map (\<lambda>x. (x - mean_of du) / sample_std du) du)"
proof -
  have s: "series_std du = Some (sample_std du)"
    using assms(3,4) by (simp add: series_std_sample)
  show ?thesis using assms(1-3,5)
    by (simp add: detect_attendance_anomalies_def df_len_def s Let_def sample_std_pos)
qed

lemma ex_outlier_stats:
  "mean_of [8, 8, 8, 8, 8, 8, 8, 8, 8, 20] = 46 / 5"
  "sample_var [8, 8, 8, 8, 8, 8, 8, 8, 8, 20] = 72 / 5"
  by (simp_all add: mean_of_def sample_var_def sum_sq_dev_def power2_eq_square)


lemma ex_frame_fields:
  "\<not> df_empty (ex_frame du)" "col_duration (ex_frame du) = Some du"
  "10 \<le> index_len (ex_frame du)"
  "col_employee_id (ex_frame du) = Some (replicate 10 ''E001'')"
  "col_date (ex_frame du) = Some [738877, 738878, 738879, 738880, 738881, 738882, 738883,
     738884, 738885, 738886]"
  "index_len (ex_frame du) = 10"
  by (simp_all add: ex_frame_def df_empty_def df_columns_def)







lemma ex_outlier_mutated:
  "col_z ex_df_outlier = None \<and>
   col_z (snd (detect_attendance_anomalies ex_df_outlier)) =
     Some (map (\<lambda>x. (x - mean_of [8, 8, 8, 8, 8, 8, 8, 8, 8, 20]) /
                       sample_std [8, 8, 8, 8, 8, 8, 8, 8, 8, 20])
            [8, 8, 8, 8, 8, 8, 8, 8, 8, 20])"
  unfolding ex_df_outlier_def
  by (subst detect_columns[OF ex_frame_fields(1-3)])
     (simp_all add: ex_frame_fields ex_outlier_stats, simp add: ex_frame_def)








text \<open>
  Claim C9 says that the table the caller passed is the same after the call. For nine
  durations of 8 and one of 20 the table has no \<open>z\<close> field before the call and has one
  after it.
\<close>

theorem anomalies_mutate_argument:
  "col_z ex_df_outlier = None \<and>
   col_z (snd (detect_attendance_anomalies ex_df_outlier)) \<noteq> None \<and>
   snd (detect_attendance_anomalies ex_df_outlier) \<noteq> ex_df_outlier \<and>
   df_columns ex_df_outlier = [''employee_id'', ''date'', ''entry_time'', ''duration'', ''status''] \<and>
   df_columns (snd (detect_attendance_anomalies ex_df_outlier)) =
     [''employee_id'', ''date'', ''entry_time'', ''duration'', ''status'', ''z'']"
proof -
  have z: "col_z ex_df_outlier = None"
    "col_z (snd (detect_attendance_anomalies ex_df_outlier)) \<noteq> None"
    using ex_outlier_mutated by simp_all
  then have ne: "snd (detect_attendance_anomalies ex_df_outlier) \<noteq> ex_df_outlier" by auto
  have s: "series_std [8, 8, 8, 8, 8, 8, 8, 8, 8, 20] =
      Some (sample_std [8, 8, 8, 8, 8, 8, 8, 8, 8, 20])"
    by (simp add: series_std_sample)
  have p: "0 < sample_std [8, 8, 8, 8, 8, 8, 8, 8, 8, 20]"
    by (simp add: sample_std_pos ex_outlier_stats)
  have c: "df_columns ex_df_outlier =
      [''employee_id'', ''date'', ''entry_time'', ''duration'', ''status'']"
    by (simp add: df_columns_def ex_df_outlier_def ex_frame_def)
  have "snd (detect_attendance_anomalies ex_df_outlier) =
      ex_df_outlier\<lparr>col_z := col_z (snd (detect_attendance_anomalies ex_df_outlier))\<rparr>"
    using p
    by (simp add: detect_attendance_anomalies_def df_len_def s Let_def ex_df_outlier_def
        ex_frame_fields)
  then have "df_columns (snd (detect_attendance_anomalies ex_df_outlier)) =
      df_columns (ex_df_outlier\<lparr>col_z := col_z (snd (detect_attendance_anomalies ex_df_outlier))\<rparr>)"
    by simp
  also have "\<dots> = [''employee_id'', ''date'', ''entry_time'', ''duration'', ''status'', ''z'']"
    using z(2) by (simp add: df_columns_def ex_df_outlier_def ex_frame_def)
  finally show ?thesis using z ne c by simp
qed

subsection \<open>Binary floating point\<close>

lemma pow2_pos: "0 < pow2 e"
  by (simp add: pow2_def)

lemma pow2_Suc: "pow2 (e + 1) = 2 * pow2 e"
proof -
  consider "0 \<le> e" | "e = - 1" | "e < - 1" by linarith
  then show ?thesis
  proof cases
    case 1
    then have "nat (e + 1) = Suc (nat e)" by simp
    with 1 show ?thesis by (simp add: pow2_def)
  next
    case 2
    then show ?thesis by (simp add: pow2_def)
  next
    case 3
    then have "nat (- e) = Suc (nat (- (e + 1)))" by simp
    with 3 show ?thesis by (simp add: pow2_def)
  qed
qed

lemma pow2_mono: "a \<le> b \<Longrightarrow> pow2 a \<le> pow2 b"
proof -
  have "pow2 a \<le> pow2 (a + int n)" for n
  proof (induction n)
    case 0
    then show ?case by simp
  next
    case (Suc n)
    have "pow2 (a + int (Suc n)) = 2 * pow2 (a + int n)"
      using pow2_Suc[of "a + int n"] by (simp add: ac_simps)
    with Suc pow2_pos[of "a + int n"] show ?case by simp
  qed
  from this[of "nat (b - a)"] show "a \<le> b \<Longrightarrow> pow2 a \<le> pow2 b" by simp
qed

lemma floor_log2_bounds:
  "0 < x \<Longrightarrow> pow2 (floor_log2 x) \<le> x \<and> x < pow2 (floor_log2 x + 1)"
proof (induction x rule: floor_log2.induct)
  case (1 x)
  consider "2 \<le> x" | "0 < x" "x < 1" | "1 \<le> x" "x < 2" using 1(3) by linarith
  then show ?case
  proof cases
    case 1
    define k where "k = floor_log2 (x / 2)"
    from "1.IH"(1)[OF 1] 1
    have ih: "pow2 k \<le> x / 2 \<and> x / 2 < pow2 (k + 1)" by (simp add: k_def)
    have f: "floor_log2 x = k + 1" using 1 by (subst floor_log2.simps) (simp add: k_def)
    have "pow2 (k + 1) = 2 * pow2 k" "pow2 (k + 1 + 1) = 2 * pow2 (k + 1)"
      by (rule pow2_Suc)+
    with ih show ?thesis unfolding f by linarith
  next
    case 2
    define k where "k = floor_log2 (x * 2)"
    from "1.IH"(2) 2
    have ih: "pow2 k \<le> x * 2 \<and> x * 2 < pow2 (k + 1)" by (simp add: k_def)
    have f: "floor_log2 x = k - 1" using 2 by (subst floor_log2.simps) (simp add: k_def)
    have "pow2 (k - 1 + 1) = 2 * pow2 (k - 1)" "pow2 (k + 1) = 2 * pow2 k"
      by (rule pow2_Suc)+
    with ih show ?thesis unfolding f by simp
  next
    case 3
    have f: "floor_log2 x = 0" using 3 by (subst floor_log2.simps) simp
    show ?thesis unfolding f using 3 by (simp add: pow2_def)
  qed
qed

lemma floor_log2_unique:
  assumes "pow2 e \<le> x" "x < pow2 (e + 1)"
  shows "floor_log2 x = e"
proof -
  have x: "0 < x" using assms(1) pow2_pos[of e] by linarith
  note b = floor_log2_bounds[OF x]
  have "\<not> floor_log2 x < e"
  proof
    assume "floor_log2 x < e"
    then have "pow2 (floor_log2 x + 1) \<le> pow2 e" by (intro pow2_mono) simp
    with b assms show False by linarith
  qed
  moreover have "\<not> e < floor_log2 x"
  proof
    assume "e < floor_log2 x"
    then have "pow2 (e + 1) \<le> pow2 (floor_log2 x)" by (intro pow2_mono) simp
    with b assms show False by linarith
  qed
  ultimately show ?thesis by linarith
qed

lemma round_half_even_close: "\<bar>real_of_int (round_half_even y) - y\<bar> \<le> 1 / 2"
  unfolding round_half_even_def Let_def by (auto; linarith)

lemma fl_round_bound:
  assumes "\<bar>x\<bar> \<le> 2 ^ 1000"
  shows "\<bar>fl_round x\<bar> < pow2 1024"
proof (cases "x = 0")
  case True
  then show ?thesis using pow2_pos[of 1024] by (simp add: fl_round_def)
next
  case False
  define e where "e = max (floor_log2 \<bar>x\<bar>) (- 1022)"
  define q where "q = pow2 (e - 52)"
  have q0: "0 < q" by (simp add: q_def pow2_pos)
  have fr: "fl_round x = of_int (round_half_even (x / q)) * q"
    using False by (simp add: fl_round_def Let_def e_def q_def)
  have "\<bar>of_int (round_half_even (x / q)) * q - x\<bar> =
        \<bar>of_int (round_half_even (x / q)) - x / q\<bar> * q"
  proof -
    have "of_int (round_half_even (x / q)) * q - x = (of_int (round_half_even (x / q)) - x / q) * q"
      using q0 by (simp add: left_diff_distrib)
    then show ?thesis using q0 by (simp only: abs_mult)
  qed
  also have "\<dots> \<le> (1 / 2) * q"
    using round_half_even_close[of "x / q"] q0 by (intro mult_right_mono) simp_all
  finally have close: "\<bar>fl_round x - x\<bar> \<le> q / 2" by (simp add: fr)
  have "pow2 (floor_log2 \<bar>x\<bar>) \<le> \<bar>x\<bar>" using floor_log2_bounds[of "\<bar>x\<bar>"] False by simp
  moreover have "pow2 (- 1022) \<le> 1" by (simp add: pow2_def)
  ultimately have "pow2 e \<le> max \<bar>x\<bar> 1" by (auto simp: e_def max_def)
  moreover have "q \<le> pow2 e" unfolding q_def by (rule pow2_mono) simp
  ultimately have "q \<le> 2 ^ 1000" using assms by (simp add: max_def split: if_splits)
  with close assms have "\<bar>fl_round x\<bar> \<le> 2 ^ 1000 + 2 ^ 1000 / 2" by linarith
  also have "\<dots> < pow2 1024" by (simp add: pow2_def)
  finally show ?thesis .
qed

lemma int_truediv_ok:
  assumes "b \<noteq> 0" "\<bar>a\<bar> \<le> 2 ^ 1000"
  shows "int_truediv a b = Inr (fl_round (real_of_int a / real_of_int b))"
proof -
  have "1 \<le> \<bar>real_of_int b\<bar>" using assms(1) by (simp flip: of_int_abs)
  then have "\<bar>real_of_int a / real_of_int b\<bar> \<le> \<bar>real_of_int a\<bar>"
    using mult_left_mono[of 1 "\<bar>real_of_int b\<bar>" "\<bar>real_of_int a\<bar>"]
    by (simp add: field_simps)
  also have "\<dots> \<le> 2 ^ 1000" using assms(2)
    by (metis of_int_abs of_int_le_iff of_int_numeral of_int_power)
  finally have "\<bar>fl_round (real_of_int a / real_of_int b)\<bar> < pow2 1024" by (rule fl_round_bound)
  then show ?thesis using assms(1) by (simp add: int_truediv_def Let_def)
qed

lemma fl_round_eval:
  assumes "pow2 e \<le> \<bar>x\<bar>" "\<bar>x\<bar> < pow2 (e + 1)" "- 1022 \<le> e"
  shows "fl_round x = of_int (round_half_even (x / pow2 (e - 52))) * pow2 (e - 52)"
proof -
  have "floor_log2 \<bar>x\<bar> = e" using assms(1,2) by (rule floor_log2_unique)
  moreover have "x \<noteq> 0" using assms(1) pow2_pos[of e] by auto
  ultimately show ?thesis using assms(3) by (simp add: fl_round_def Let_def max_def)
qed

subsection \<open>Department leave abuse\<close>

lemma dict_get_update:
  "dict_get (AList.update k v al) k' dflt = (if k' = k then v else dict_get al k' dflt)"
  by (simp add: dict_get_def update_conv')

lemma sum_update:
  "sum_list (map snd (AList.update k (dict_get al k 0 + x) al)) = sum_list (map snd al) + (x::int)"
  by (induction al) (auto simp: dict_get_def)

lemma dept_leave_loop_get:
  "dict_get (dept_leave_loop leaves acc) d 0 = dict_get acc d 0 + days_for d leaves"
proof (induction leaves arbitrary: acc)
  case Nil
  then show ?case by (simp add: days_for_def)
next
  case (Cons a leaves)
  obtain dept start end' where a: "a = (dept, start, end')" by (cases a) auto
  show ?case unfolding a
    by (simp add: Cons.IH dict_get_update days_for_def)
qed

lemma update_keys: "fst ` set (AList.update k v al) = insert k (fst ` set al)"
  by (induction al) auto

lemma dept_leave_loop_keys:
  "fst ` set (dept_leave_loop leaves acc) = fst ` set acc \<union> fst ` set leaves"
proof (induction leaves arbitrary: acc)
  case Nil
  then show ?case by simp
next
  case (Cons a leaves)
  obtain dept start end' where a: "a = (dept, start, end')" by (cases a) auto
  show ?case unfolding a
    by (simp add: Cons.IH update_keys)
qed

lemma dept_leave_loop_distinct:
  "distinct (map fst acc) \<Longrightarrow> distinct (map fst (dept_leave_loop leaves acc))"
proof (induction leaves arbitrary: acc)
  case Nil
  then show ?case by simp
next
  case (Cons a leaves)
  obtain dept start end' where a: "a = (dept, start, end')" by (cases a) auto
  show ?case unfolding a using Cons.prems
    by (simp add: Cons.IH distinct_update)
qed

lemma dept_leave_loop_sum:
  "sum_list (map snd (dept_leave_loop leaves acc)) =
     sum_list (map snd acc) + (\<Sum>(dept, start, end') \<leftarrow> leaves. (end' - start) + 1)"
proof (induction leaves arbitrary: acc)
  case Nil
  then show ?case by simp
next
  case (Cons a leaves)
  obtain dept start end' where a: "a = (dept, start, end')" by (cases a) auto
  show ?case unfolding a
    by (simp add: Cons.IH sum_update)
qed

lemma dept_leave_loop_item:
  assumes "(d, days) \<in> set (dept_leave_loop leaves [])"
  shows "days = days_for d leaves"
proof -
  have "distinct (map fst (dept_leave_loop leaves []))"
    by (rule dept_leave_loop_distinct) simp
  with assms have "map_of (dept_leave_loop leaves []) d = Some days" by simp
  then have "dict_get (dept_leave_loop leaves []) d 0 = days" by (simp add: dict_get_def)
  moreover have "dict_get (dept_leave_loop leaves []) d 0 = dict_get [] d 0 + days_for d leaves"
    by (rule dept_leave_loop_get)
  moreover have "dict_get [] d (0::int) = 0" by (simp add: dict_get_def)
  ultimately show ?thesis by simp
qed

lemma days_for_append: "days_for d (xs @ ys) = days_for d xs + days_for d ys"
  by (simp add: days_for_def)

lemma days_for_concat: "days_for d (concat xss) = (\<Sum>xs\<leftarrow>xss. days_for d xs)"
  by (induction xss) (simp_all add: days_for_append, simp add: days_for_def)

lemma days_for_users:
  "days_for d (map (\<lambda>u. (user_department u, s, e)) us) =
     (\<Sum>u\<leftarrow>filter (\<lambda>u. user_department u = d) us. (e - s) + 1)"
  by (induction us) (simp_all add: days_for_def)

lemma days_for_query: "days_for d (query_leaves db) = dept_leave_days db d"
proof -
  have "days_for d (query_leaves db) =
      (\<Sum>l\<leftarrow>filter (\<lambda>l. lr_status l = ''Approved'') (leave_requests db).
         \<Sum>u\<leftarrow>filter (\<lambda>u. user_department u = d)
               (filter (\<lambda>u. user_employee_id u = lr_employee_id l \<and> user_is_active u = True)
                  (users db)).
           (lr_end_date l - lr_start_date l) + 1)"
    by (simp add: query_leaves_def days_for_concat days_for_users comp_def)
  also have "\<dots> = dept_leave_days db d"
    unfolding dept_leave_days_def
    by (rule arg_cong[where f = sum_list], rule map_cong[OF refl],
        rule arg_cong[where f = sum_list], rule arg_cong2[where f = map, OF refl])
       (auto intro: filter_cong)
  finally show ?thesis .
qed

lemma total_concat:
  "(\<Sum>(dept, start, end') \<leftarrow> concat xss. (end' - start) + 1) =
   (\<Sum>xs\<leftarrow>xss. \<Sum>(dept, start, end') \<leftarrow> xs. (end' - start) + (1::int))"
  by (induction xss) simp_all

lemma total_query:
  "(\<Sum>(dept, start, end') \<leftarrow> query_leaves db. (end' - start) + 1) = total_leave_days db"
proof -
  have "(\<Sum>(dept, start, end') \<leftarrow> query_leaves db. (end' - start) + 1) =
      (\<Sum>l\<leftarrow>filter (\<lambda>l. lr_status l = ''Approved'') (leave_requests db).
         \<Sum>u\<leftarrow>filter (\<lambda>u. user_employee_id u = lr_employee_id l \<and> user_is_active u = True)
                  (users db).
           (lr_end_date l - lr_start_date l) + 1)"
    by (simp add: query_leaves_def total_concat comp_def)
  also have "\<dots> = total_leave_days db"
    unfolding total_leave_days_def
    by (rule arg_cong[where f = sum_list], rule map_cong[OF refl],
        rule arg_cong[where f = sum_list], rule arg_cong2[where f = map, OF refl])
       (auto intro: filter_cong)
  finally show ?thesis .
qed

lemma query_leaves_departments: "fst ` set (query_leaves db) = leave_departments db"
  unfolding query_leaves_def leave_departments_def by force

lemma query_leaves_empty:
  "filter (\<lambda>l. lr_status l = ''Approved'') (leave_requests db) = [] \<Longrightarrow> query_leaves db = []"
  by (simp add: query_leaves_def)

lemma emp_counts_get:
  "dict_get (query_emp_counts db) d 1 = max 1 (headcount db d)"
proof (cases "d \<in> set (map user_department (active_users db))")
  case True
  then have "filter (\<lambda>u. user_department u = d) (active_users db) \<noteq> []"
    by (auto simp: filter_empty_conv)
  then have pos: "1 \<le> headcount db d"
    by (cases "filter (\<lambda>u. user_department u = d) (active_users db)") (simp_all add: headcount_def)
  have "map_of (query_emp_counts db) d = Some (headcount db d)"
    unfolding query_emp_counts_def headcount_def using True
    by (simp add: map_of_map_restrict)
  then show ?thesis using pos by (simp add: dict_get_def)
next
  case False
  then have "filter (\<lambda>u. user_department u = d) (active_users db) = []"
    by (auto simp: filter_empty_conv)
  then have z: "headcount db d = 0" by (simp add: headcount_def)
  have "map_of (query_emp_counts db) d = None"
    unfolding query_emp_counts_def using False
    by (simp add: map_of_map_restrict)
  then show ?thesis using z by (simp add: dict_get_def)
qed

lemma length_by_key:
  "(\<Sum>d\<leftarrow>remdups (map f us). int (length (filter (\<lambda>u. f u = d) us))) = int (length us)"
proof -
  have "(\<Sum>d\<leftarrow>remdups (map f us). int (length (filter (\<lambda>u. f u = d) us))) =
      (\<Sum>d\<in>set (map f us). int (length (filter (\<lambda>u. f u = d) us)))"
    by (simp add: sum_list_distinct_conv_sum_set)
  also have "\<dots> = (\<Sum>d\<in>set (map f us). int (count_list (map f us) d))"
    by (rule sum.cong[OF refl]) (simp add: count_list_eq_length_filter comp_def eq_commute)
  also have "\<dots> = int (\<Sum>d\<in>set (map f us). count_list (map f us) d)" by simp
  also have "\<dots> = int (length (map f us))"
    by (simp only: sum_count_set[OF subset_refl finite_set])
  finally show ?thesis by simp
qed

lemma emp_counts_total:
  "sum_list (map snd (query_emp_counts db)) = int (length (active_users db))"
  unfolding query_emp_counts_def by (simp add: comp_def length_by_key)

lemma abs_days_for:
  "\<bar>days_for d leaves\<bar> \<le> (\<Sum>(dept, start, end') \<leftarrow> leaves. \<bar>(end' - start) + 1\<bar>)"
  unfolding days_for_def by (induction leaves) auto

lemma abs_total:
  "\<bar>\<Sum>(dept, start, end') \<leftarrow> leaves. (end' - start) + 1\<bar> \<le>
     (\<Sum>(dept, start, end') \<leftarrow> leaves. \<bar>(end' - start) + (1::int)\<bar>)"
  by (induction leaves) auto

lemma dept_days_bound: "\<bar>dept_leave_days db d\<bar> \<le> abs_leave_days db"
  using abs_days_for[of d "query_leaves db"] by (simp add: days_for_query abs_leave_days_def)

lemma total_days_bound: "\<bar>total_leave_days db\<bar> \<le> abs_leave_days db"
  using abs_total[of "query_leaves db"] by (simp add: total_query abs_leave_days_def)

lemma abuse_loop_eq:
  assumes "\<forall>(dept, days) \<in> set items. \<bar>days\<bar> \<le> 2 ^ 1000"
  shows "abuse_loop (query_emp_counts db) org items acc =
     Inr (acc @ map (\<lambda>(dept, days).
                      \<lparr>ab_department = dept,
                       ab_avg_leave = py_round2 (fl_round (real_of_int days /
                                        real_of_int (max 1 (headcount db dept)))),
                       ab_org_avg = py_round2 org\<rparr>)
                (filter (\<lambda>(dept, days).
                   float_gt (fl_round (real_of_int days / real_of_int (max 1 (headcount db dept))))
                     (float_mul org 1.5)) items))"
  using assms
proof (induction items arbitrary: acc)
  case Nil
  then show ?case by simp
next
  case (Cons a items)
  obtain dept days where a: "a = (dept, days)" by (cases a) auto
  have nz: "max 1 (headcount db dept) \<noteq> 0" by simp
  have b: "\<bar>days\<bar> \<le> 2 ^ 1000" using Cons.prems by (simp add: a)
  have t: "int_truediv days (dict_get (query_emp_counts db) dept 1) =
           Inr (fl_round (real_of_int days / real_of_int (max 1 (headcount db dept))))"
    unfolding emp_counts_get by (rule int_truediv_ok[OF nz b])
  have r: "\<forall>(dept, days) \<in> set items. \<bar>days\<bar> \<le> 2 ^ 1000" using Cons.prems by simp
  show ?case unfolding a by (simp add: t Cons.IH[OF r])
qed

lemma org_avg_eq:
  assumes "abs_leave_days db \<le> 2 ^ 1000"
  shows "(if sum_list (map snd (query_emp_counts db)) \<noteq> 0
          then int_truediv (sum_list (map snd (dept_leave_loop (query_leaves db) [])))
                 (sum_list (map snd (query_emp_counts db)))
          else Inr 0) = Inr (org_average db)"
proof (cases "active_users db = []")
  case True
  then show ?thesis
    by (simp add: emp_counts_total org_average_def org_average_exact_def fl_round_def)
next
  case False
  have b: "\<bar>total_leave_days db\<bar> \<le> 2 ^ 1000" using total_days_bound[of db] assms by linarith
  have nz: "int (length (active_users db)) \<noteq> 0" using False by simp
  show ?thesis using False int_truediv_ok[OF nz b]
    by (simp add: emp_counts_total dept_leave_loop_sum total_query org_average_def
        org_average_exact_def)
qed

lemma detect_eq:
  assumes "abs_leave_days db \<le> 2 ^ 1000"
  shows "detect_department_leave_abuse db =
     Inr (map (abuse_record db)
           (filter (exceeds db) (map fst (dept_leave_loop (query_leaves db) []))))"
proof (cases "query_leaves db = []")
  case True
  then show ?thesis by (simp add: detect_department_leave_abuse_def)
next
  case False
  let ?dl = "dept_leave_loop (query_leaves db) []"
  let ?avg = "\<lambda>dept days. fl_round (real_of_int days / real_of_int (max 1 (headcount db dept)))"
  have item: "days = dept_leave_days db d" if "(d, days) \<in> set ?dl" for d days
    using dept_leave_loop_item[OF that] by (simp add: days_for_query)
  have avg: "?avg d days = dept_average db d" if "(d, days) \<in> set ?dl" for d days
    using item[OF that] by (simp add: dept_average_def dept_average_exact_def)
  have bnd: "\<forall>(dept, days) \<in> set ?dl. \<bar>days\<bar> \<le> 2 ^ 1000"
  proof (clarify)
    fix d days assume "(d, days) \<in> set ?dl"
    then have "days = dept_leave_days db d" by (rule item)
    with dept_days_bound[of db d] assms show "\<bar>days\<bar> \<le> 2 ^ 1000" by linarith
  qed
  have f: "filter (\<lambda>(dept, days). float_gt (?avg dept days) (float_mul (org_average db) 1.5)) ?dl =
           filter (\<lambda>(dept, days). exceeds db dept) ?dl"
    by (rule filter_cong[OF refl]) (auto simp: exceeds_def avg)
  have m: "map (\<lambda>(dept, days).
              \<lparr>ab_department = dept, ab_avg_leave = py_round2 (?avg dept days),
               ab_org_avg = py_round2 (org_average db)\<rparr>)
            (filter (\<lambda>(dept, days). exceeds db dept) ?dl) =
           map (\<lambda>(dept, days). abuse_record db dept)
            (filter (\<lambda>(dept, days). exceeds db dept) ?dl)"
    by (rule map_cong[OF refl]) (auto simp: abuse_record_def avg)
  have r: "map (\<lambda>(dept, days). abuse_record db dept)
            (filter (\<lambda>(dept, days). exceeds db dept) ?dl) =
           map (abuse_record db) (filter (exceeds db) (map fst ?dl))"
    by (simp add: filter_map comp_def case_prod_unfold)
  have "detect_department_leave_abuse db =
      abuse_loop (query_emp_counts db) (org_average db) ?dl []"
    using False unfolding detect_department_leave_abuse_def Let_def org_avg_eq[OF assms] by simp
  also have "\<dots> = Inr ([] @ map (\<lambda>(dept, days).
              \<lparr>ab_department = dept, ab_avg_leave = py_round2 (?avg dept days),
               ab_org_avg = py_round2 (org_average db)\<rparr>)
            (filter (\<lambda>(dept, days). float_gt (?avg dept days) (float_mul (org_average db) 1.5)) ?dl))"
    by (rule abuse_loop_eq[OF bnd])
  also have "\<dots> = Inr (map (abuse_record db) (filter (exceeds db) (map fst ?dl)))"
    by (simp only: f m r append_Nil)
  finally show ?thesis .
qed

lemma abuse_loop_error:
  "abuse_loop (query_emp_counts db) org items acc = Inl OverflowError \<or>
   (\<exists>abused. abuse_loop (query_emp_counts db) org items acc = Inr abused)"
proof (induction items arbitrary: acc)
  case Nil
  then show ?case by simp
next
  case (Cons a items)
  obtain dept days where a: "a = (dept, days)" by (cases a) auto
  have nz: "dict_get (query_emp_counts db) dept 1 \<noteq> 0" by (simp add: emp_counts_get)
  show ?case
  proof (cases "int_truediv days (dict_get (query_emp_counts db) dept 1)")
    case (Inl e)
    then have "e = OverflowError" using nz
      by (auto simp: int_truediv_def Let_def split: if_splits)
    with Inl show ?thesis by (simp add: a)
  next
    case (Inr avg)
    then show ?thesis using Cons.IH by (simp add: a)
  qed
qed

lemma detect_error:
  "detect_department_leave_abuse db = Inl OverflowError \<or>
   (\<exists>abused. detect_department_leave_abuse db = Inr abused)"
proof (cases "query_leaves db = []")
  case True
  then show ?thesis by (simp add: detect_department_leave_abuse_def)
next
  case False
  let ?org = "if sum_list (map snd (query_emp_counts db)) \<noteq> 0
          then int_truediv (sum_list (map snd (dept_leave_loop (query_leaves db) [])))
                 (sum_list (map snd (query_emp_counts db)))
          else Inr 0"
  show ?thesis
  proof (cases ?org)
    case (Inl e)
    then have "e = OverflowError"
      by (auto simp: int_truediv_def Let_def split: if_splits)
    with Inl False show ?thesis by (simp add: detect_department_leave_abuse_def Let_def)
  next
    case (Inr org)
    with False have "detect_department_leave_abuse db =
        abuse_loop (query_emp_counts db) org (dept_leave_loop (query_leaves db) []) []"
      by (simp add: detect_department_leave_abuse_def Let_def)
    then show ?thesis using abuse_loop_error[of db org] by simp
  qed
qed

lemma leave_department_headcount:
  assumes "d \<in> leave_departments db"
  shows "1 \<le> headcount db d"
proof -
  from assms obtain u where "u \<in> set (users db)" "user_is_active u" "user_department u = d"
    by (auto simp: leave_departments_def)
  then have "u \<in> set (filter (\<lambda>u. user_department u = d) (active_users db))"
    by (simp add: active_users_def)
  then have "filter (\<lambda>u. user_department u = d) (active_users db) \<noteq> []"
    by (metis empty_iff list.set(1))
  then show ?thesis
    by (cases "filter (\<lambda>u. user_department u = d) (active_users db)") (simp_all add: headcount_def)
qed

lemma ex_abuse_leaves:
  "query_leaves ex_abuse_db = [(''Ops'', 738860, 738879), (''Eng'', 738880, 738881)]"
  by (simp add: query_leaves_def ex_abuse_db_def ex_emp_def)

lemma ex_abuse_counts: "query_emp_counts ex_abuse_db = [(''Eng'', 4), (''Ops'', 3)]"
  by (simp add: query_emp_counts_def active_users_def ex_abuse_db_def ex_emp_def)

lemma ex_abuse_quotients:
  "int_truediv 20 3 = Inr (7505999378950827 / 1125899906842624)"
  "int_truediv 22 7 = Inr (7077085128725065 / 2251799813685248)"
  "int_truediv 2 4 = Inr (1 / 2)"
  using fl_round_eval[of 2 "20 / 3"] fl_round_eval[of 1 "22 / 7"] fl_round_eval[of "- 1" "1 / 2"]
  by (simp_all add: int_truediv_def pow2_def round_half_even_def)

lemma ex_abuse_product:
  "float_mul (7077085128725065 / 2251799813685248) (3 / 2) =
     Finite (5307813846543799 / 1125899906842624)"
  using fl_round_eval[of 2 "7077085128725065 / 2251799813685248 * (3 / 2)"]
  by (simp add: float_mul_def pow2_def round_half_even_def)

lemma ex_abuse_round:
  "py_round2 (7505999378950827 / 1125899906842624) = 3754876189320151 / 562949953421312"
  "py_round2 (7077085128725065 / 2251799813685248) = 7070651414971679 / 2251799813685248"
  using fl_round_eval[of 2 "667 / 100"] fl_round_eval[of 1 "314 / 100"]
  by (simp_all add: py_round2_def pow2_def round_half_even_def)

lemma ex_abuse_result:
  "detect_department_leave_abuse ex_abuse_db =
     Inr [\<lparr>ab_department = ''Ops'', ab_avg_leave = 3754876189320151 / 562949953421312,
           ab_org_avg = 7070651414971679 / 2251799813685248\<rparr>]"
  by (simp add: detect_department_leave_abuse_def ex_abuse_leaves ex_abuse_counts dict_get_def
      ex_abuse_quotients ex_abuse_product ex_abuse_round float_gt_def)

lemma ex_tie_leaves: "query_leaves ex_tie_db = [(''A'', 738860, 738876)]"
  by (simp add: query_leaves_def ex_tie_db_def ex_emp_def)

lemma ex_tie_counts: "query_emp_counts ex_tie_db = [(''A'', 6), (''B'', 3)]"
  by (simp add: query_emp_counts_def active_users_def ex_tie_db_def ex_emp_def)

lemma ex_tie_quotients:
  "int_truediv 17 6 = Inr (6380099472108203 / 2251799813685248)"
  "int_truediv 17 9 = Inr (4253399648072135 / 2251799813685248)"
  using fl_round_eval[of 1 "17 / 6"] fl_round_eval[of 0 "17 / 9"]
  by (simp_all add: int_truediv_def pow2_def round_half_even_def)

lemma ex_tie_product:
  "float_mul (4253399648072135 / 2251799813685248) (3 / 2) =
     Finite (3190049736054101 / 1125899906842624)"
  using fl_round_eval[of 1 "4253399648072135 / 2251799813685248 * (3 / 2)"]
  by (simp add: float_mul_def pow2_def round_half_even_def)

lemma ex_tie_round:
  "py_round2 (6380099472108203 / 2251799813685248) = 1593148368182313 / 562949953421312"
  "py_round2 (4253399648072135 / 2251799813685248) = 8511803295730237 / 4503599627370496"
  using fl_round_eval[of 1 "283 / 100"] fl_round_eval[of 0 "189 / 100"]
  by (simp_all add: py_round2_def pow2_def round_half_even_def)

lemma ex_tie_result:
  "detect_department_leave_abuse ex_tie_db =
     Inr [\<lparr>ab_department = ''A'', ab_avg_leave = 1593148368182313 / 562949953421312,
           ab_org_avg = 8511803295730237 / 4503599627370496\<rparr>]"
  by (simp add: detect_department_leave_abuse_def ex_tie_leaves ex_tie_counts dict_get_def
      ex_tie_quotients ex_tie_product ex_tie_round float_gt_def)

lemma ex_tie_exact:
  "dept_average_exact ex_tie_db ''A'' = 17 / 6" "org_average_exact ex_tie_db = 17 / 9"
  by (simp_all add: dept_average_exact_def org_average_exact_def dept_leave_days_def
      total_leave_days_def headcount_def active_users_def ex_tie_db_def ex_emp_def)

lemma ex_even_leaves: "query_leaves ex_even_db = [(''A'', 738860, 738862), (''B'', 738860, 738860)]"
  by (simp add: query_leaves_def ex_even_db_def ex_emp_def)

lemma ex_even_counts: "query_emp_counts ex_even_db = [(''A'', 1), (''B'', 1)]"
  by (simp add: query_emp_counts_def active_users_def ex_even_db_def ex_emp_def)

lemma ex_even_quotients:
  "int_truediv 3 1 = Inr 3" "int_truediv 4 2 = Inr 2" "int_truediv 1 1 = Inr 1"
  using fl_round_eval[of 1 3] fl_round_eval[of 1 2] fl_round_eval[of 0 1]
  by (simp_all add: int_truediv_def pow2_def round_half_even_def)

lemma ex_even_product: "float_mul 2 (3 / 2) = Finite 3"
  using fl_round_eval[of 1 3] by (simp add: float_mul_def pow2_def round_half_even_def)

lemma ex_even_result: "detect_department_leave_abuse ex_even_db = Inr []"
  by (simp add: detect_department_leave_abuse_def ex_even_leaves ex_even_counts dict_get_def
      ex_even_quotients ex_even_product float_gt_def)

lemma ex_even_averages: "dept_average ex_even_db ''A'' = 3" "org_average ex_even_db = 2"
proof -
  have f: "fl_round 3 = 3" "fl_round 2 = 2"
    using ex_even_quotients by (simp_all add: int_truediv_def Let_def split: if_splits)
  have d: "dept_leave_days ex_even_db ''A'' = 3"
    using days_for_query[of "''A''" ex_even_db] by (simp add: ex_even_leaves days_for_def)
  have t: "total_leave_days ex_even_db = 4"
    using total_query[of ex_even_db] by (simp add: ex_even_leaves)
  have h: "headcount ex_even_db ''A'' = 1" "length (active_users ex_even_db) = 2"
    by (simp_all add: headcount_def active_users_def ex_even_db_def ex_emp_def)
  have ne: "active_users ex_even_db \<noteq> []" using h(2) by auto
  show "dept_average ex_even_db ''A'' = 3"
    by (simp add: dept_average_def dept_average_exact_def d h f)
  show "org_average ex_even_db = 2"
    by (simp add: org_average_def org_average_exact_def t h ne f)
qed

text \<open>
  Claim C7, as the code has it. \<open>detect_department_leave_abuse\<close> never raises
  \<open>ZeroDivisionError\<close>: it returns a list, or raises \<open>OverflowError\<close> when a quotient is too
  large for a float, which needs leave days of more than \<open>2 ^ 1000\<close> in absolute value. It
  returns the empty list when no leave request is approved. The divisor of a department's
  average is its active headcount and at least 1, and a department with an approved request
  of an active employee has an active employee. Short of an overflow the function reports
  every department once, and exactly the departments with an approved request of an active
  employee whose average as a float (the leave days by the headcount, correctly rounded) is
  greater than the float product of 1.5 and the average of the organization as a float (the
  leave days of all these requests by the number of active employees, correctly rounded; 0
  when there is none), each with its name and the two averages rounded by \<open>round(x, 2)\<close>.
\<close>

theorem leave_abuse:
  "(detect_department_leave_abuse db = Inl OverflowError \<or>
      (\<exists>abused. detect_department_leave_abuse db = Inr abused)) \<and>
   (abs_leave_days db \<le> 2 ^ 1000 \<longrightarrow>
      (\<exists>abused. detect_department_leave_abuse db = Inr abused \<and>
         distinct (map ab_department abused) \<and>
         set abused = abuse_record db ` {d \<in> leave_departments db. exceeds db d})) \<and>
   (filter (\<lambda>l. lr_status l = ''Approved'') (leave_requests db) = [] \<longrightarrow>
      detect_department_leave_abuse db = Inr []) \<and>
   dict_get (query_emp_counts db) d 1 = max 1 (headcount db d) \<and>
   (d \<in> leave_departments db \<longrightarrow> 1 \<le> headcount db d)"
proof -
  let ?keys = "map fst (dept_leave_loop (query_leaves db) [])"
  let ?abused = "map (abuse_record db) (filter (exceeds db) ?keys)"
  have d: "distinct ?keys" by (rule dept_leave_loop_distinct) simp
  have k: "set ?keys = leave_departments db"
    using dept_leave_loop_keys[of "query_leaves db" "[]"] by (simp add: query_leaves_departments)
  have dep: "map ab_department ?abused = filter (exceeds db) ?keys"
    by (simp add: comp_def abuse_record_def)
  have 1: "distinct (map ab_department ?abused)" unfolding dep using d by simp
  have 2: "set ?abused = abuse_record db ` {d \<in> leave_departments db. exceeds db d}"
    using k by auto
  have 3: "detect_department_leave_abuse db = Inr []"
    if "filter (\<lambda>l. lr_status l = ''Approved'') (leave_requests db) = []"
    using query_leaves_empty[OF that] by (simp add: detect_department_leave_abuse_def)
  have 4: "\<exists>abused. detect_department_leave_abuse db = Inr abused \<and>
         distinct (map ab_department abused) \<and>
         set abused = abuse_record db ` {d \<in> leave_departments db. exceeds db d}"
    if "abs_leave_days db \<le> 2 ^ 1000"
    by (rule exI[of _ ?abused]) (use detect_eq[OF that] 1 2 in blast)
  show ?thesis
    using detect_error[of db] 3 4 emp_counts_get[of db d] leave_department_headcount[of d db]
    by blast
qed

theorem leave_abuse_witness:
  "abs_leave_days ex_abuse_db \<le> 2 ^ 1000 \<and>
   detect_department_leave_abuse ex_abuse_db =
     Inr [\<lparr>ab_department = ''Ops'', ab_avg_leave = 3754876189320151 / 562949953421312,
           ab_org_avg = 7070651414971679 / 2251799813685248\<rparr>] \<and>
   leave_departments ex_abuse_db = {''Ops'', ''Eng''} \<and>
   exceeds ex_abuse_db ''Ops'' \<and> \<not> exceeds ex_abuse_db ''Eng'' \<and>
   abuse_record ex_abuse_db ''Ops'' =
     \<lparr>ab_department = ''Ops'', ab_avg_leave = 3754876189320151 / 562949953421312,
      ab_org_avg = 7070651414971679 / 2251799813685248\<rparr> \<and>
   headcount ex_abuse_db ''Ops'' = 3 \<and>
   headcount ex_abuse_db ''HR'' = 0 \<and> dict_get (query_emp_counts ex_abuse_db) ''HR'' 1 = 1 \<and>
   dept_average ex_even_db ''A'' = 3 \<and> org_average ex_even_db = 2 \<and>
   detect_department_leave_abuse ex_even_db = Inr [] \<and>
   filter (\<lambda>l. lr_status l = ''Approved'') (leave_requests (ex_abuse_db\<lparr>leave_requests := []\<rparr>)) = [] \<and>
   detect_department_leave_abuse (ex_abuse_db\<lparr>leave_requests := []\<rparr>) = Inr []"
proof -
  have b: "abs_leave_days ex_abuse_db \<le> 2 ^ 1000"
    by (simp add: abs_leave_days_def ex_abuse_leaves)
  have l: "leave_departments ex_abuse_db = {''Ops'', ''Eng''}"
    using query_leaves_departments[of ex_abuse_db] by (simp add: ex_abuse_leaves)
  have h: "headcount ex_abuse_db ''Ops'' = 3" "headcount ex_abuse_db ''HR'' = 0"
          "headcount ex_abuse_db ''Eng'' = 4"
    by (simp_all add: headcount_def active_users_def ex_abuse_db_def ex_emp_def)
  have dd: "dept_leave_days ex_abuse_db ''Ops'' = 20" "dept_leave_days ex_abuse_db ''Eng'' = 2"
    using days_for_query[of "''Ops''" ex_abuse_db] days_for_query[of "''Eng''" ex_abuse_db]
    by (simp_all add: ex_abuse_leaves days_for_def)
  have tt: "total_leave_days ex_abuse_db = 22"
    using total_query[of ex_abuse_db] by (simp add: ex_abuse_leaves)
  have au: "length (active_users ex_abuse_db) = 7"
    by (simp add: active_users_def ex_abuse_db_def ex_emp_def)
  have ne: "active_users ex_abuse_db \<noteq> []" using au by auto
  have q: "fl_round (20 / 3) = 7505999378950827 / 1125899906842624"
          "fl_round (22 / 7) = 7077085128725065 / 2251799813685248"
          "fl_round (1 / 2) = 1 / 2"
    using ex_abuse_quotients by (simp_all add: int_truediv_def Let_def split: if_splits)
  have o: "org_average ex_abuse_db = 7077085128725065 / 2251799813685248"
    by (simp add: org_average_def org_average_exact_def q tt au ne)
  have e: "exceeds ex_abuse_db ''Ops''" "\<not> exceeds ex_abuse_db ''Eng''"
    by (simp_all add: exceeds_def dept_average_def dept_average_exact_def o dd h q
        ex_abuse_product float_gt_def)
  from leave_abuse[of ex_abuse_db "''HR''"] b
  obtain abused where a: "detect_department_leave_abuse ex_abuse_db = Inr abused"
    "set abused = abuse_record ex_abuse_db ` {d \<in> leave_departments ex_abuse_db. exceeds ex_abuse_db d}"
    by blast
  have s: "{d \<in> leave_departments ex_abuse_db. exceeds ex_abuse_db d} = {''Ops''}"
    using l e by auto
  have ab: "abused = [\<lparr>ab_department = ''Ops'', ab_avg_leave = 3754876189320151 / 562949953421312,
      ab_org_avg = 7070651414971679 / 2251799813685248\<rparr>]"
    using a(1) unfolding ex_abuse_result by (simp only: sum.inject)
  have "set abused = {abuse_record ex_abuse_db ''Ops''}"
    using a(2) unfolding s by (simp only: image_insert image_empty)
  then have "{\<lparr>ab_department = ''Ops'', ab_avg_leave = 3754876189320151 / 562949953421312,
      ab_org_avg = 7070651414971679 / 2251799813685248\<rparr>} = {abuse_record ex_abuse_db ''Ops''}"
    unfolding ab by (simp only: list.set)
  then have r: "abuse_record ex_abuse_db ''Ops'' =
     \<lparr>ab_department = ''Ops'', ab_avg_leave = 3754876189320151 / 562949953421312,
      ab_org_avg = 7070651414971679 / 2251799813685248\<rparr>"
    by (rule singleton_inject[symmetric])
  have n: "filter (\<lambda>l. lr_status l = ''Approved'')
            (leave_requests (ex_abuse_db\<lparr>leave_requests := []\<rparr>)) = []" by simp
  from leave_abuse[of "ex_abuse_db\<lparr>leave_requests := []\<rparr>" "''HR''"] n
  have z: "detect_department_leave_abuse (ex_abuse_db\<lparr>leave_requests := []\<rparr>) = Inr []"
    by blast
  from leave_abuse[of ex_abuse_db "''HR''"] h(2)
  have g: "dict_get (query_emp_counts ex_abuse_db) ''HR'' 1 = 1" by simp
  from b ex_abuse_result l e r h g ex_even_averages ex_even_result n z show ?thesis by simp
qed

text \<open>
  Claim C7 as it is stated compares the averages themselves. With six active employees in
  department A, three in B and one approved leave of 17 days in A, the average of A, 17/6,
  is 1.5 times the average of the organization, 17/9, and not greater; the code divides,
  multiplies and compares in binary floating point and reports A, with the floats printed
  as 2.83 and 1.89.
\<close>

theorem leave_abuse_tie_counterexample:
  "dept_average_exact ex_tie_db ''A'' = 1.5 * org_average_exact ex_tie_db \<and>
   detect_department_leave_abuse ex_tie_db =
     Inr [\<lparr>ab_department = ''A'', ab_avg_leave = 1593148368182313 / 562949953421312,
           ab_org_avg = 8511803295730237 / 4503599627370496\<rparr>]"
  using ex_tie_exact ex_tie_result by simp

subsection \<open>Absenteeism risk\<close>

lemma recent_absents_eq: "recent_absents today db e = absents_since (today - 90) db e"
  by (simp add: recent_absents_def absents_since_def)

lemma DataFrame_metrics:
  "\<exists>m. compute_behavior_metrics (DataFrame data) db employee_id = Inr m"
proof (cases "data = []")
  case True
  then have "df_empty (DataFrame data)" by (simp add: DataFrame_def df_empty_def)
  then show ?thesis by (simp add: metrics_default_lemma)
next
  case False
  then have "\<not> df_empty (DataFrame data)"
    by (simp add: DataFrame_def df_empty_def df_columns_def)
  moreover have "col_entry_time (DataFrame data) = Some (map fr_entry_time data)"
    "col_status (DataFrame data) = Some (map fr_status data)"
    "col_duration (DataFrame data) = Some (map fr_duration data)"
    using False by (simp_all add: DataFrame_def)
  ultimately show ?thesis using metrics_full by blast
qed

lemma predict_eq:
  assumes "compute_behavior_metrics (get_attendance_dataframe today db (Some e)) (Some db) (Some e)
             = Inr m"
  shows "predict_absenteeism_risk today db e =
     Inr \<lparr>rr_employee_id = e,
          rr_risk = (if 20 \<le> 2 * absents_since (today - 90) db e +
                             (if attendance_score m < 70 then 10 else 0) then ''high''
                     else if 10 \<le> 2 * absents_since (today - 90) db e +
                             (if attendance_score m < 70 then 10 else 0) then ''medium''
                     else ''low''),
          rr_risk_score = 2 * absents_since (today - 90) db e +
                             (if attendance_score m < 70 then 10 else 0)\<rparr>"
  using assms by (simp add: predict_absenteeism_risk_def Let_def recent_absents_eq)

lemma score_from_rows:
  assumes "data \<noteq> []"
    and "compute_behavior_metrics (DataFrame data) db employee_id = Inr m"
  shows "attendance_score m =
     score_of (int (length (filter (\<lambda>s. s = ''PRESENT'') (map fr_status data))))
       (int (length (filter (\<lambda>h. h > 10) (map hour_of (map fr_entry_time data)))))
       (int (length (filter (\<lambda>s. s = ''ABSENT'') (map fr_status data))))
       (leave_calculation db employee_id)"
proof -
  have ne: "\<not> df_empty (DataFrame data)"
    using assms(1) by (simp add: DataFrame_def df_empty_def df_columns_def)
  have c: "col_entry_time (DataFrame data) = Some (map fr_entry_time data)"
    "col_status (DataFrame data) = Some (map fr_status data)"
    "col_duration (DataFrame data) = Some (map fr_duration data)"
    using assms(1) by (simp_all add: DataFrame_def)
  from assms(2) show ?thesis unfolding metrics_full[OF ne c] by auto
qed

lemma ex_risk_rows:
  "get_attendance_rows 738886 ex_risk_db (Some ''E001'') =
     [\<lparr>fr_employee_id = ''E001'', fr_date = 738884, fr_entry_time = ex_dt 738884 9 0,
       fr_duration = 8, fr_status = ''PRESENT''\<rparr>,
      \<lparr>fr_employee_id = ''E001'', fr_date = 738850, fr_entry_time = ex_dt 738850 9 30,
       fr_duration = 0, fr_status = ''ABSENT''\<rparr>,
      \<lparr>fr_employee_id = ''E001'', fr_date = 738851, fr_entry_time = ex_dt 738851 10 0,
       fr_duration = 0, fr_status = ''ABSENT''\<rparr>]"
  by (simp add: get_attendance_rows_def truthy_str_def ex_risk_db_def duration_or_0_def)

lemma ex_risk_leave: "leave_calculation (Some ex_risk_db) (Some ''E001'') = 23"
  by (simp add: leave_calculation_def truthy_str_def truthy_db_def approved_leaves_of_def
      ex_risk_db_def)

lemma ex_risk_absents: "absents_since (738886 - 90) ex_risk_db ''E001'' = 2"
  by (simp add: absents_since_def ex_risk_db_def)

lemma ex_risk_score:
  assumes "compute_behavior_metrics (get_attendance_dataframe 738886 ex_risk_db (Some ''E001''))
     (Some ex_risk_db) (Some ''E001'') = Inr m"
  shows "attendance_score m = 65"
proof -
  have "attendance_score m = score_of 1 0 2 23"
    using score_from_rows[OF _ assms[unfolded get_attendance_dataframe_def]]
    by (simp add: ex_risk_rows ex_risk_leave hour_of_def ex_dt_def)
  then show ?thesis by (simp add: score_of_def)
qed

lemma ex_att_score:
  assumes "compute_behavior_metrics (get_attendance_dataframe 738886 ex_att_db (Some ''E001''))
     (Some ex_att_db) (Some ''E001'') = Inr m"
  shows "attendance_score m = 91"
proof -
  have "attendance_score m = score_of 1 0 1 3"
    using score_from_rows[OF _ assms[unfolded get_attendance_dataframe_def]]
    by (simp add: ex_rows_E001 ex_leave_att hour_of_def ex_dt_def)
  then show ?thesis by (simp add: score_of_def)
qed

text \<open>
  Claim C8, as the code has it. For every employee identifier \<open>predict_absenteeism_risk\<close>
  returns a result (the metrics engine raises nothing on the table of the extractor), whose
  \<open>risk_score\<close> is 2 times the number of the employee's ABSENT facts dated on or after today
  minus 90 days, plus 10 exactly when the \<open>attendance_score\<close> of the metrics engine on the
  table of the extractor is below 70; \<open>risk\<close> is "high" from 20, "medium" from 10 and below
  20, and "low" below 10. Two such absences and an attendance score of 65 give 14 and
  "medium".
\<close>

theorem absenteeism_risk:
  "\<exists>m r. compute_behavior_metrics (get_attendance_dataframe today db (Some e)) (Some db) (Some e)
            = Inr m \<and>
     predict_absenteeism_risk today db e = Inr r \<and>
     rr_employee_id r = e \<and>
     rr_risk_score r = 2 * absents_since (today - 90) db e +
                         (if attendance_score m < 70 then 10 else 0) \<and>
     (rr_risk r = ''high'' \<longleftrightarrow> 20 \<le> rr_risk_score r) \<and>
     (rr_risk r = ''medium'' \<longleftrightarrow> 10 \<le> rr_risk_score r \<and> rr_risk_score r < 20) \<and>
     (rr_risk r = ''low'' \<longleftrightarrow> rr_risk_score r < 10) \<and>
     (absents_since (today - 90) db e = 2 \<and> attendance_score m = 65 \<longrightarrow>
        rr_risk_score r = 14 \<and> rr_risk r = ''medium'')"
proof -
  obtain m where m:
    "compute_behavior_metrics (get_attendance_dataframe today db (Some e)) (Some db) (Some e) = Inr m"
    unfolding get_attendance_dataframe_def using DataFrame_metrics by blast
  show ?thesis
    by (rule exI[of _ m], rule exI, intro conjI, rule m, rule predict_eq[OF m]) auto
qed

theorem absenteeism_risk_witness:
  "absents_since (738886 - 90) ex_risk_db ''E001'' = 2 \<and>
   (\<exists>m. compute_behavior_metrics (get_attendance_dataframe 738886 ex_risk_db (Some ''E001''))
          (Some ex_risk_db) (Some ''E001'') = Inr m \<and> attendance_score m = 65) \<and>
   predict_absenteeism_risk 738886 ex_risk_db ''E001'' =
     Inr \<lparr>rr_employee_id = ''E001'', rr_risk = ''medium'', rr_risk_score = 14\<rparr>"
proof -
  from absenteeism_risk[of 738886 ex_risk_db "''E001''"] obtain m r where
    m: "compute_behavior_metrics (get_attendance_dataframe 738886 ex_risk_db (Some ''E001''))
          (Some ex_risk_db) (Some ''E001'') = Inr m"
    and r: "predict_absenteeism_risk 738886 ex_risk_db ''E001'' = Inr r"
      "rr_employee_id r = ''E001''"
    and imp: "absents_since (738886 - 90) ex_risk_db ''E001'' = 2 \<and> attendance_score m = 65 \<longrightarrow>
        rr_risk_score r = 14 \<and> rr_risk r = ''medium''"
    by blast
  have s: "attendance_score m = 65" by (rule ex_risk_score[OF m])
  with imp ex_risk_absents have "rr_risk_score r = 14" "rr_risk r = ''medium''" by simp_all
  with r(2) have "r = \<lparr>rr_employee_id = ''E001'', rr_risk = ''medium'', rr_risk_score = 14\<rparr>"
    by (cases r) simp
  with r(1) m s ex_risk_absents show ?thesis by blast
qed

text \<open>
  Claim C8 as it is stated counts the facts of the trailing 90 days; an ABSENT fact dated
  tomorrow is counted too, so that one absence in the trailing 90 days gives the score 4.
\<close>

theorem absenteeism_risk_counterexample:
  "spec_recent_absents 738886 ex_att_db ''E001'' = 1 \<and>
   (\<exists>m. compute_behavior_metrics (get_attendance_dataframe 738886 ex_att_db (Some ''E001''))
          (Some ex_att_db) (Some ''E001'') = Inr m \<and> attendance_score m = 91) \<and>
   predict_absenteeism_risk 738886 ex_att_db ''E001'' =
     Inr \<lparr>rr_employee_id = ''E001'', rr_risk = ''low'', rr_risk_score = 4\<rparr>"
proof -
  obtain m where m:
    "compute_behavior_metrics (get_attendance_dataframe 738886 ex_att_db (Some ''E001''))
          (Some ex_att_db) (Some ''E001'') = Inr m"
    unfolding get_attendance_dataframe_def using DataFrame_metrics by blast
  have s: "attendance_score m = 91" by (rule ex_att_score[OF m])
  have a: "absents_since 738796 ex_att_db ''E001'' = 2"
    by (simp add: absents_since_def ex_att_db_def)
  have sp: "spec_recent_absents 738886 ex_att_db ''E001'' = 1"
    by (simp add: spec_recent_absents_def in_window_def ex_att_db_def)
  show ?thesis using predict_eq[OF m] m s sp by (simp add: a)
qed

end
